theory Spec2Isabelle
  imports Main "HOL-Library.Word" "HOL-Library.Sublist"
begin

unbundle bit_operations_syntax

section \<open>R2 to local Wrangler sync: a model of sync-r2-to-local.ts\<close>

text \<open>
  The script is sequential glue around four outside parties: the process environment and
  command line, the S3-compatible remote store, the file system, and the subprocesses it
  spawns (wrangler). The model passes a \<open>world\<close> through every function: the file
  system, the ordered trace of calls that leave the process, and the console. What the
  outside parties answer is read from an \<open>env\<close> record. JavaScript exceptions are
  values: a function that may throw returns \<open>error + 'a\<close>.
\<close>

subsection \<open>JavaScript values\<close>

type_synonym byte = "8 word"

text \<open>Every throw in the script throws an \<open>Error\<close> object; only its message is read.\<close>

datatype error = Error string

fun message :: "error \<Rightarrow> string" where
  "message (Error m) = m"

text \<open>
  \<open>string | undefined\<close> is \<open>string option\<close>. A value is falsy when it is
  undefined or the empty string.
\<close>

fun truthy :: "string option \<Rightarrow> bool" where
  "truthy None = False"
| "truthy (Some s) = (s \<noteq> [])"

text \<open>Template literals print numbers in decimal.\<close>

fun show_nat :: "nat \<Rightarrow> string" where
  "show_nat n =
     (if n < 10 then [char_of (48 + n)]
      else show_nat (n div 10) @ [char_of (48 + n mod 10)])"

declare show_nat.simps [simp del]

text \<open>\<open>String.prototype.split\<close> with a one-character separator.\<close>

fun split :: "char \<Rightarrow> string \<Rightarrow> string list" where
  "split c [] = [[]]"
| "split c (x # xs) =
     (if x = c then [] # split c xs
      else (case split c xs of
              s # ss \<Rightarrow> (x # s) # ss
            | [] \<Rightarrow> [[x]]))"

text \<open>\<open>Array.prototype.join\<close>.\<close>

fun join :: "string \<Rightarrow> string list \<Rightarrow> string" where
  "join sep [] = []"
| "join sep [s] = s"
| "join sep (s # t # ss) = s @ sep @ join sep (t # ss)"

definition startsWith :: "string \<Rightarrow> string \<Rightarrow> bool" where
  "startsWith s p = prefix p s"

subsection \<open>Node's \<open>path\<close> module (POSIX flavour)\<close>

text \<open>
  \<open>path.join\<close> and \<open>path.dirname\<close> belong to Node, not to the repository. They are
  written out here, after \<open>path.posix\<close>, because the script's directory names are their
  results. \<open>normalizeString\<close> walks the segments between slashes: empty segments and
  \<open>.\<close> are dropped, \<open>..\<close> removes the segment before it, and is kept only at the
  front of a relative path.
\<close>

fun normalizeString :: "string list \<Rightarrow> bool \<Rightarrow> string list \<Rightarrow> string list" where
  "normalizeString [] allowAboveRoot res = res"
| "normalizeString (seg # segs) allowAboveRoot res =
     (if seg = [] \<or> seg = ''.'' then normalizeString segs allowAboveRoot res
      else if seg = ''..'' then
        (if res = [] then
           (if allowAboveRoot then normalizeString segs allowAboveRoot [''..'']
            else normalizeString segs allowAboveRoot [])
         else if last res = ''..'' then
           (if allowAboveRoot then normalizeString segs allowAboveRoot (res @ [''..''])
            else normalizeString segs allowAboveRoot res)
         else normalizeString segs allowAboveRoot (butlast res))
      else normalizeString segs allowAboveRoot (res @ [seg]))"

definition isAbsolute :: "string \<Rightarrow> bool" where
  "isAbsolute p = (case p of [] \<Rightarrow> False | c # _ \<Rightarrow> c = CHR ''/'')"

definition path_normalize :: "string \<Rightarrow> string" where
  "path_normalize p =
     (if p = [] then ''.''
      else
        let trailingSeparator = (last p = CHR ''/'');
            res = join ''/'' (normalizeString (split (CHR ''/'') p) (\<not> isAbsolute p) [])
        in if res = [] then
             (if isAbsolute p then ''/'' else if trailingSeparator then ''./'' else ''.'')
           else (if isAbsolute p then ''/'' else [])
                @ res @ (if trailingSeparator then ''/'' else []))"

definition path_join :: "string list \<Rightarrow> string" where
  "path_join args =
     (let joined = join ''/'' (filter (\<lambda>a. a \<noteq> []) args)
      in if joined = [] then ''.'' else path_normalize joined)"

text \<open>
  \<open>path.dirname\<close> scans from the end down to index 1: trailing slashes are skipped, then
  the name, and the path is cut at the slash found before the name.
\<close>

definition path_dirname :: "string \<Rightarrow> string" where
  "path_dirname p =
     (if p = [] then ''.''
      else
        let hasRoot = (hd p = CHR ''/'');
            afterName = dropWhile (\<lambda>c. c \<noteq> CHR ''/'')
                          (dropWhile (\<lambda>c. c = CHR ''/'') (rev (tl p)));
            end = length afterName
        in if afterName = [] then (if hasRoot then ''/'' else ''.'')
           else if hasRoot \<and> end = 1 then ''//''
           else take end p)"

subsection \<open>Identifier derivation\<close>

text \<open>
  Node's \<open>crypto\<close> takes a string or a buffer. SHA-256 and HMAC-SHA256 are Node's, so
  they are parameters of the model.
\<close>

datatype BinaryLike = Str string | Buf "byte list"

record crypto =
  sha256 :: "BinaryLike \<Rightarrow> byte list"
  hmac_sha256 :: "byte list \<Rightarrow> BinaryLike \<Rightarrow> byte list"

text \<open>
  For a concrete instance the two functions are written out: SHA-256 after FIPS 180-4
  and HMAC after RFC 2104, on the UTF-8 bytes of a string argument (an Isabelle
  \<open>char\<close> is one byte).
\<close>

type_synonym word32 = "32 word"

text \<open>
  The constants are defined as the standard defines them: the first 32 bits of the
  fractional parts of the square roots (initial hash value) and cube roots (round
  constants) of the first primes. \<open>root_search\<close> finds \<open>\<lfloor>n powr (1/k)\<rfloor>\<close> bit by bit.
\<close>

fun root_search :: "nat \<Rightarrow> int \<Rightarrow> nat \<Rightarrow> int \<Rightarrow> int" where
  "root_search k n 0 r = r"
| "root_search k n (Suc b) r =
     (if (r + 2 ^ b) ^ k \<le> n then root_search k n b (r + 2 ^ b) else root_search k n b r)"

definition fractional_bits :: "nat \<Rightarrow> int \<Rightarrow> word32" where
  "fractional_bits k p = of_int (root_search k (p * 2 ^ (32 * k)) 36 0)"

definition is_prime :: "int \<Rightarrow> bool" where
  "is_prime p = (1 < p \<and> list_all (\<lambda>d. p mod d \<noteq> 0) [2..p - 1])"

definition K256 :: "word32 list" where
  "K256 = map (fractional_bits 3) (filter is_prime [2..311])"

definition H256 :: "word32 list" where
  "H256 = map (fractional_bits 2) (filter is_prime [2..19])"

definition rotr :: "nat \<Rightarrow> word32 \<Rightarrow> word32" where
  "rotr n x = (drop_bit n x) OR (push_bit (32 - n) x)"

definition Ch :: "word32 \<Rightarrow> word32 \<Rightarrow> word32 \<Rightarrow> word32" where
  "Ch x y z = (x AND y) XOR (NOT x AND z)"
definition Maj :: "word32 \<Rightarrow> word32 \<Rightarrow> word32 \<Rightarrow> word32" where
  "Maj x y z = (x AND y) XOR (x AND z) XOR (y AND z)"
definition Sigma0 :: "word32 \<Rightarrow> word32" where "Sigma0 x = rotr 2 x XOR rotr 13 x XOR rotr 22 x"
definition Sigma1 :: "word32 \<Rightarrow> word32" where "Sigma1 x = rotr 6 x XOR rotr 11 x XOR rotr 25 x"
definition sigma0 :: "word32 \<Rightarrow> word32" where "sigma0 x = rotr 7 x XOR rotr 18 x XOR drop_bit 3 x"
definition sigma1 :: "word32 \<Rightarrow> word32" where "sigma1 x = rotr 17 x XOR rotr 19 x XOR drop_bit 10 x"

text \<open>The message schedule, latest word first: each step adds the next of the 64 words.\<close>
fun schedule :: "nat \<Rightarrow> word32 list \<Rightarrow> word32 list" where
  "schedule 0 ws = ws"
| "schedule (Suc n) ws = schedule n ((sigma1 (ws ! 1) + ws ! 6 + sigma0 (ws ! 14) + ws ! 15) # ws)"

definition round_step :: "word32 list \<Rightarrow> word32 \<times> word32 \<Rightarrow> word32 list" where
  "round_step st kw =
     (let a = st ! 0; b = st ! 1; c = st ! 2; d = st ! 3;
          e = st ! 4; f = st ! 5; g = st ! 6; h = st ! 7;
          t1 = h + Sigma1 e + Ch e f g + fst kw + snd kw;
          t2 = Sigma0 a + Maj a b c
      in [t1 + t2, a, b, c, d + t1, e, f, g])"

definition rounds :: "word32 list \<Rightarrow> word32 list \<Rightarrow> word32 list \<Rightarrow> word32 list" where
  "rounds ks ws st = foldl round_step st (zip ks ws)"

definition be32 :: "byte list \<Rightarrow> word32" where
  "be32 bs = foldl (\<lambda>acc b. push_bit 8 acc OR ucast b) 0 bs"

fun chunks :: "nat \<Rightarrow> nat \<Rightarrow> 'a list \<Rightarrow> 'a list list" where
  "chunks 0 n xs = []"
| "chunks (Suc k) n xs = take n xs # chunks k n (drop n xs)"

definition compress :: "word32 list \<Rightarrow> byte list \<Rightarrow> word32 list" where
  "compress st block =
     (let w16 = map be32 (chunks 16 4 block);
          w64 = rev (schedule 48 (rev w16))
      in map2 (+) st (rounds K256 w64 st))"

definition length_bytes :: "64 word \<Rightarrow> byte list" where
  "length_bytes x = map (\<lambda>i. ucast (drop_bit (8 * (7 - i)) x)) [0..<8]"

definition pad :: "byte list \<Rightarrow> byte list" where
  "pad m = m @ [0x80] @ replicate ((119 - length m mod 64) mod 64) 0
             @ length_bytes (8 * of_nat (length m))"

definition word_bytes :: "word32 \<Rightarrow> byte list" where
  "word_bytes x = [ucast (drop_bit 24 x), ucast (drop_bit 16 x), ucast (drop_bit 8 x), ucast x]"

definition sha256_bytes :: "byte list \<Rightarrow> byte list" where
  "sha256_bytes m =
     (let p = pad m
      in concat (map word_bytes (foldl compress H256 (chunks (length p div 64) 64 p))))"

definition hmac_bytes :: "byte list \<Rightarrow> byte list \<Rightarrow> byte list" where
  "hmac_bytes key m =
     (let k0 = (if length key > 64 then sha256_bytes key else key);
          k = k0 @ replicate (64 - length k0) 0
      in sha256_bytes (map (\<lambda>b. b XOR 0x5c) k @ sha256_bytes (map (\<lambda>b. b XOR 0x36) k @ m)))"

definition utf8 :: "string \<Rightarrow> byte list" where
  "utf8 s = map (\<lambda>c. of_nat (of_char c)) s"

fun bytes_of :: "BinaryLike \<Rightarrow> byte list" where
  "bytes_of (Str s) = utf8 s"
| "bytes_of (Buf b) = b"

definition fips_crypto :: crypto where
  "fips_crypto = \<lparr>sha256 = (\<lambda>d. sha256_bytes (bytes_of d)),
                        hmac_sha256 = (\<lambda>k d. hmac_bytes k (bytes_of d))\<rparr>"

text \<open>\<open>Buffer.toString('hex')\<close>: two lower-case digits for each byte.\<close>

definition hex_digit :: "nat \<Rightarrow> char" where
  "hex_digit n = ''0123456789abcdef'' ! n"

definition hex_byte :: "byte \<Rightarrow> string" where
  "hex_byte b = [hex_digit (unat b div 16), hex_digit (unat b mod 16)]"

definition toString_hex :: "byte list \<Rightarrow> string" where
  "toString_hex bs = concat (map hex_byte bs)"

definition durableObjectNamespaceIdFromName :: "crypto \<Rightarrow> string \<Rightarrow> string \<Rightarrow> string" where
  "durableObjectNamespaceIdFromName cr uniqueKey name =
     (let key = sha256 cr (Str uniqueKey);
          nameHmac = take 16 (hmac_sha256 cr key (Str name));
          hmac = take 16 (hmac_sha256 cr key (Buf nameHmac))
      in toString_hex (nameHmac @ hmac))"

definition MINIFLARE_KEY :: string where
  "MINIFLARE_KEY = ''miniflare-R2BucketObject''"

text \<open>
  The derivation in the words of the specification: the identifier is the 32 bytes
  \<open>nameDigest || hmac\<close>, written in hexadecimal.
\<close>

definition deriveId_key :: "crypto \<Rightarrow> byte list" where
  "deriveId_key cr = sha256 cr (Str MINIFLARE_KEY)"

definition deriveId_nameDigest :: "crypto \<Rightarrow> string \<Rightarrow> byte list" where
  "deriveId_nameDigest cr B = take 16 (hmac_sha256 cr (deriveId_key cr) (Str B))"

definition deriveId_hmac :: "crypto \<Rightarrow> string \<Rightarrow> byte list" where
  "deriveId_hmac cr B =
     take 16 (hmac_sha256 cr (deriveId_key cr) (Buf (deriveId_nameDigest cr B)))"

definition is_hex_char :: "char \<Rightarrow> bool" where
  "is_hex_char c = (c \<in> set ''0123456789abcdef'')"

subsection \<open>Command line\<close>

text \<open>
  The module-level constants, as functions of \<open>args = process.argv.slice(2)\<close>.
\<close>

definition forceSync :: "string list \<Rightarrow> bool" where
  "forceSync args = (''--force'' \<in> set args)"

definition cleanSync :: "string list \<Rightarrow> bool" where
  "cleanSync args = (''--clean'' \<in> set args)"

definition wranglerDir :: "string list \<Rightarrow> string" where
  "wranglerDir args =
     (case find (\<lambda>arg. startsWith arg ''--wrangler-dir='') args of
        None \<Rightarrow> ''./.wrangler''
      | Some wranglerDirArg \<Rightarrow> split (CHR ''='') wranglerDirArg ! 1)"

definition MINIFLARE_DIR :: "string list \<Rightarrow> string" where
  "MINIFLARE_DIR args = path_join [wranglerDir args, ''state'', ''v3'', ''r2'', MINIFLARE_KEY]"

definition BUCKET_NAME :: "string list \<Rightarrow> string option" where
  "BUCKET_NAME args = (case args of [] \<Rightarrow> None | a # _ \<Rightarrow> Some a)"

definition TEMP_DIR :: string where
  "TEMP_DIR = ''./temp-r2-sync''"

subsection \<open>The file system\<close>

text \<open>
  The file system is a tree: a node is a file with its bytes or a directory with its
  entries, so a path exists only below directories that exist. The process has a working
  directory, an absolute path held as its segments; it never changes it. A path is
  resolved to segments from the root the way the operating system does it, with
  \<open>.\<close> and \<open>..\<close> resolved (symbolic links are not modelled).
\<close>

datatype node = File "byte list" | Dir "(string \<times> node) list"

fun isDir :: "node \<Rightarrow> bool" where
  "isDir (Dir es) = True"
| "isDir (File c) = False"

definition put_entry :: "string \<Rightarrow> node \<Rightarrow> (string \<times> node) list \<Rightarrow> (string \<times> node) list" where
  "put_entry name n es = (name, n) # filter (\<lambda>e. fst e \<noteq> name) es"

definition drop_entry :: "string \<Rightarrow> (string \<times> node) list \<Rightarrow> (string \<times> node) list" where
  "drop_entry name es = filter (\<lambda>e. fst e \<noteq> name) es"

fun lookup :: "node \<Rightarrow> string list \<Rightarrow> node option" where
  "lookup n [] = Some n"
| "lookup (File c) (s # p) = None"
| "lookup (Dir es) (s # p) = (case map_of es s of None \<Rightarrow> None | Some child \<Rightarrow> lookup child p)"

definition resolve :: "string list \<Rightarrow> string \<Rightarrow> string list" where
  "resolve cwd p =
     normalizeString ((if isAbsolute p then [] else cwd) @ split (CHR ''/'') p) False []"

definition trailingSlash :: "string \<Rightarrow> bool" where
  "trailingSlash p = (p \<noteq> [] \<and> last p = CHR ''/'')"

text \<open>
  The system calls behind the \<open>fs\<close> functions the script uses, with the error codes
  they fail with. \<open>made\<close> is \<open>mkdir\<close> with \<open>recursive: true\<close>: it creates what
  is missing and fails on a file in the way. \<open>written\<close> is opening a file for writing
  and writing the bytes: the parent must be a directory and the target must not be one,
  and a path that ends in a slash never names a file. \<open>unlinked\<close> removes a file and
  fails on a directory. \<open>removed\<close> is \<open>rm\<close> with \<open>recursive: true, force: true\<close>:
  it takes the node away with all below it, and a missing path is no error.
\<close>

datatype errno = EISDIR | ENOENT | ENOTDIR | EEXIST

fun made :: "node \<Rightarrow> string list \<Rightarrow> errno + node" where
  "made (File c) [] = Inl EEXIST"
| "made (File c) (s # p) = Inl ENOTDIR"
| "made (Dir es) [] = Inr (Dir es)"
| "made (Dir es) (s # p) =
     (case made (case map_of es s of None \<Rightarrow> Dir [] | Some child \<Rightarrow> child) p of
        Inl e \<Rightarrow> Inl e
      | Inr child \<Rightarrow> Inr (Dir (put_entry s child es)))"

fun written :: "node \<Rightarrow> string list \<Rightarrow> bool \<Rightarrow> byte list \<Rightarrow> errno + node" where
  "written n [] slash bytes = Inl EISDIR"
| "written (File c) (s # p) slash bytes = Inl ENOTDIR"
| "written (Dir es) [s] slash bytes =
     (case map_of es s of
        Some (Dir ds) \<Rightarrow> Inl EISDIR
      | Some (File c) \<Rightarrow>
          if slash then Inl ENOTDIR else Inr (Dir (put_entry s (File bytes) es))
      | None \<Rightarrow>
          if slash then Inl EISDIR else Inr (Dir (put_entry s (File bytes) es)))"
| "written (Dir es) (s # t # p) slash bytes =
     (case map_of es s of
        None \<Rightarrow> Inl ENOENT
      | Some child \<Rightarrow>
          (case written child (t # p) slash bytes of
             Inl e \<Rightarrow> Inl e
           | Inr child1 \<Rightarrow> Inr (Dir (put_entry s child1 es))))"

fun unlinked :: "node \<Rightarrow> string list \<Rightarrow> bool \<Rightarrow> errno + node" where
  "unlinked n [] slash = Inl EISDIR"
| "unlinked (File c) (s # p) slash = Inl ENOTDIR"
| "unlinked (Dir es) [s] slash =
     (case map_of es s of
        None \<Rightarrow> Inl ENOENT
      | Some (Dir ds) \<Rightarrow> Inl EISDIR
      | Some (File c) \<Rightarrow> if slash then Inl ENOTDIR else Inr (Dir (drop_entry s es)))"
| "unlinked (Dir es) (s # t # p) slash =
     (case map_of es s of
        None \<Rightarrow> Inl ENOENT
      | Some child \<Rightarrow>
          (case unlinked child (t # p) slash of
             Inl e \<Rightarrow> Inl e
           | Inr child1 \<Rightarrow> Inr (Dir (put_entry s child1 es))))"

fun removed :: "node \<Rightarrow> string list \<Rightarrow> node" where
  "removed n [] = n"
| "removed (File c) (s # p) = File c"
| "removed (Dir es) [s] = Dir (drop_entry s es)"
| "removed (Dir es) (s # t # p) =
     (case map_of es s of
        None \<Rightarrow> Dir es
      | Some child \<Rightarrow> Dir (put_entry s (removed child (t # p)) es))"

text \<open>The \<open>Error\<close> Node throws for a failed system call: code, description, call and path.\<close>

fun describe :: "errno \<Rightarrow> string" where
  "describe EISDIR = ''EISDIR: illegal operation on a directory''"
| "describe ENOENT = ''ENOENT: no such file or directory''"
| "describe ENOTDIR = ''ENOTDIR: not a directory''"
| "describe EEXIST = ''EEXIST: file already exists''"

definition fs_error :: "errno \<Rightarrow> string \<Rightarrow> string \<Rightarrow> error" where
  "fs_error e syscall p = Error (describe e @ '', '' @ syscall @ '' '' @ [CHR 0x27] @ p @ [CHR 0x27])"

subsection \<open>The world outside the process\<close>

text \<open>
  The trace lists, in order, every call that leaves the process: requests to the remote
  store, spawned commands, the query on the local database, and the calls that change the
  file system.
\<close>

datatype event =
    S3ListObjectsV2 string "string option"
  | S3GetObject string string
  | Spawn string "string list"
  | SqliteAll string
  | FsMkdir string
  | FsRm string
  | FsWrite string
  | FsUnlink string

text \<open>
  The console: one line for each call of a log helper, with the helper that printed it.
  The colour codes and emoji that the helpers and some messages carry are left out of
  the text.
\<close>

datatype level = Plain | Success | Failure | Warning | Info | Step

datatype console_line = Log level string | Usage

record world =
  fs :: node
  cwd :: "string list"
  trace :: "event list"
  console :: "console_line list"

text \<open>The \<open>_Object\<close> of the S3 client: every field is optional; the script reads \<open>Key\<close>.\<close>

record S3Object =
  Key :: "string option"
  Size :: "nat option"
  ETag :: "string option"

text \<open>
  What the remote store answers to the successive \<open>ListObjectsV2\<close> requests of one run:
  a request either throws, or returns a page (\<open>Contents\<close>, \<open>NextContinuationToken\<close>)
  followed by the answers to later requests. A store that hands out continuation tokens
  for ever is outside the model.
\<close>

datatype s3_listing =
    SendError error
  | Response "S3Object list option" "string option" s3_listing

text \<open>A finished child process: exit code (\<open>null\<close> when killed), output, and the file system it leaves.\<close>

record spawned =
  code :: "nat option"
  stdout :: string
  stderr :: string
  fs_after :: node

text \<open>
  The answers of the outside parties. Those that can differ from call to call take the
  trace so far. \<open>s3_get\<close> either throws on \<open>send\<close>, or returns a response whose body
  is absent, or a stream that fails or ends with the bytes read. \<open>sqlite_all\<close> is opening
  the database read-only and running \<open>SELECT * FROM _mf_objects\<close>; it gives the
  \<open>key\<close> column of the rows.
\<close>

record env =
  process_env :: "string \<Rightarrow> string option"
  node_crypto :: crypto
  s3_list :: "string \<Rightarrow> s3_listing"
  s3_get :: "event list \<Rightarrow> string \<Rightarrow> string \<Rightarrow> error + (error + byte list) option"
  spawn :: "event list \<Rightarrow> node \<Rightarrow> string \<Rightarrow> string list \<Rightarrow> spawned"
  sqlite_all :: "event list \<Rightarrow> string \<Rightarrow> error + string list"

definition emit :: "event \<Rightarrow> world \<Rightarrow> world" where
  "emit e w = w\<lparr>trace := trace w @ [e]\<rparr>"

definition log :: "level \<Rightarrow> string \<Rightarrow> world \<Rightarrow> world" where
  "log lv m w = w\<lparr>console := console w @ [Log lv m]\<rparr>"

definition logSuccess :: "string \<Rightarrow> world \<Rightarrow> world" where
  "logSuccess = log Success"

definition logError :: "string \<Rightarrow> world \<Rightarrow> world" where
  "logError = log Failure"

definition logWarning :: "string \<Rightarrow> world \<Rightarrow> world" where
  "logWarning = log Warning"

definition logInfo :: "string \<Rightarrow> world \<Rightarrow> world" where
  "logInfo = log Info"

definition logStep :: "string \<Rightarrow> world \<Rightarrow> world" where
  "logStep = log Step"

definition printUsage :: "world \<Rightarrow> world" where
  "printUsage w = w\<lparr>console := console w @ [Usage]\<rparr>"

subsection \<open>The \<open>fs\<close> calls of the script\<close>

text \<open>
  \<open>existsSync\<close> never throws; a path that ends in a slash exists only as a directory.
  The other calls are recorded in the trace when they are made, and change the file system
  when they succeed.
\<close>

definition existsSync :: "world \<Rightarrow> string \<Rightarrow> bool" where
  "existsSync w p =
     (case lookup (fs w) (resolve (cwd w) p) of
        None \<Rightarrow> False
      | Some n \<Rightarrow> p \<noteq> [] \<and> (if trailingSlash p then isDir n else True))"

definition mkdirSync :: "string \<Rightarrow> world \<Rightarrow> (error + unit) \<times> world" where
  "mkdirSync p w =
     (case made (fs w) (resolve (cwd w) p) of
        Inl e \<Rightarrow> (Inl (fs_error e ''mkdir'' p), emit (FsMkdir p) w)
      | Inr t \<Rightarrow> (Inr (), emit (FsMkdir p) (w\<lparr>fs := t\<rparr>)))"

definition rmSync :: "string \<Rightarrow> world \<Rightarrow> world" where
  "rmSync p w = emit (FsRm p) (w\<lparr>fs := removed (fs w) (resolve (cwd w) p)\<rparr>)"

definition writeFileSync :: "string \<Rightarrow> byte list \<Rightarrow> world \<Rightarrow> (error + unit) \<times> world" where
  "writeFileSync p bytes w =
     (case written (fs w) (resolve (cwd w) p) (trailingSlash p) bytes of
        Inl e \<Rightarrow> (Inl (fs_error e ''open'' p), emit (FsWrite p) w)
      | Inr t \<Rightarrow> (Inr (), emit (FsWrite p) (w\<lparr>fs := t\<rparr>)))"

definition unlinkSync :: "string \<Rightarrow> world \<Rightarrow> (error + unit) \<times> world" where
  "unlinkSync p w =
     (case unlinked (fs w) (resolve (cwd w) p) (trailingSlash p) of
        Inl e \<Rightarrow> (Inl (fs_error e ''unlink'' p), emit (FsUnlink p) w)
      | Inr t \<Rightarrow> (Inr (), emit (FsUnlink p) (w\<lparr>fs := t\<rparr>)))"

subsection \<open>Utility functions\<close>

definition ACCOUNT_ID :: "env \<Rightarrow> string option" where
  "ACCOUNT_ID en = process_env en ''CLOUDFLARE_ACCOUNT_ID''"

definition ACCESS_KEY_ID :: "env \<Rightarrow> string option" where
  "ACCESS_KEY_ID en = process_env en ''CLOUDFLARE_ACCESS_KEY_ID''"

definition SECRET_ACCESS_KEY :: "env \<Rightarrow> string option" where
  "SECRET_ACCESS_KEY en = process_env en ''CLOUDFLARE_SECRET_ACCESS_KEY''"

text \<open>Building the client has no effect outside the process; only the check can throw.\<close>

definition createRemoteClient :: "env \<Rightarrow> error + unit" where
  "createRemoteClient en =
     (if \<not> truthy (ACCOUNT_ID en) \<or> \<not> truthy (ACCESS_KEY_ID en) \<or> \<not> truthy (SECRET_ACCESS_KEY en)
      then Inl (Error ''Missing required environment variables: CLOUDFLARE_ACCOUNT_ID, CLOUDFLARE_ACCESS_KEY_ID, CLOUDFLARE_SECRET_ACCESS_KEY'')
      else Inr ())"

fun show_code :: "nat option \<Rightarrow> string" where
  "show_code None = ''null''"
| "show_code (Some n) = show_nat n"

definition execCommand :: "env \<Rightarrow> string \<Rightarrow> string list \<Rightarrow> world \<Rightarrow> (error + string) \<times> world" where
  "execCommand en command args w =
     (let child = spawn en (trace w) (fs w) command args;
          w1 = emit (Spawn command args) (w\<lparr>fs := fs_after child\<rparr>)
      in if code child = Some 0 then (Inr (stdout child), w1)
         else (Inl (Error (''Command failed with code '' @ show_code (code child) @ '': '' @ stderr child)), w1))"

definition ensureDirectoryExists :: "string \<Rightarrow> world \<Rightarrow> (error + unit) \<times> world" where
  "ensureDirectoryExists dir w =
     (if \<not> existsSync w dir
      then (case mkdirSync dir w of
              (Inl e, w1) \<Rightarrow> (Inl e, w1)
            | (Inr u, w1) \<Rightarrow> (Inr (), logSuccess (''Created directory: '' @ dir) w1))
      else (Inr (), w))"

definition cleanupDirectory :: "string \<Rightarrow> world \<Rightarrow> world" where
  "cleanupDirectory dir w =
     (if existsSync w dir
      then logSuccess (''Cleaned up directory: '' @ dir) (rmSync dir w)
      else w)"

subsection \<open>Remote lister\<close>

text \<open>
  The \<open>do ... while (continuationToken)\<close> loop: each round sends one request (with the
  token when it is truthy), appends the page's \<open>Contents\<close> when present, and goes on
  while the new token is truthy. A failing request is logged and thrown again.
\<close>

fun listRemoteObjects_pages ::
  "s3_listing \<Rightarrow> string \<Rightarrow> S3Object list \<Rightarrow> string option \<Rightarrow> world
     \<Rightarrow> (error + S3Object list) \<times> world" where
  "listRemoteObjects_pages (SendError e) bucketName objects continuationToken w =
     (Inl e,
      logError (''Failed to list remote objects: '' @ message e)
        (emit (S3ListObjectsV2 bucketName
                 (if truthy continuationToken then continuationToken else None)) w))"
| "listRemoteObjects_pages (Response contents next later) bucketName objects continuationToken w =
     (let w1 = emit (S3ListObjectsV2 bucketName
                       (if truthy continuationToken then continuationToken else None)) w;
          objects1 = objects @ (case contents of None \<Rightarrow> [] | Some page \<Rightarrow> page)
      in if truthy next then listRemoteObjects_pages later bucketName objects1 next w1
         else (Inr objects1, w1))"

definition listRemoteObjects :: "env \<Rightarrow> string \<Rightarrow> world \<Rightarrow> (error + S3Object list) \<times> world" where
  "listRemoteObjects en bucketName w =
     listRemoteObjects_pages (s3_list en bucketName) bucketName [] None w"

subsection \<open>Local store reader\<close>

text \<open>The body of the \<open>try\<close> block of \<open>listLocalObjectsFromDatabase\<close>.\<close>

definition listLocalObjectsFromDatabase_try ::
  "env \<Rightarrow> string list \<Rightarrow> string \<Rightarrow> world \<Rightarrow> (error + string list) \<times> world" where
  "listLocalObjectsFromDatabase_try en args bucketName w =
     (if \<not> existsSync w (MINIFLARE_DIR args)
      then (Inr [], logWarning ''Miniflare R2 directory does not exist for bucket'' w)
      else
        let databaseName = durableObjectNamespaceIdFromName (node_crypto en) MINIFLARE_KEY bucketName;
            dbPath = MINIFLARE_DIR args @ ''/'' @ databaseName @ ''.sqlite''
        in if \<not> existsSync w dbPath
           then (Inr [], logWarning ''No SQLite database file found in Miniflare directory'' w)
           else
             let w1 = logInfo (''Reading from SQLite database: '' @ dbPath) w;
                 w2 = emit (SqliteAll dbPath) w1
             in (case sqlite_all en (trace w1) dbPath of
                   Inl e \<Rightarrow> (Inl e, w2)
                 | Inr keys \<Rightarrow> (Inr keys, w2)))"

text \<open>The \<open>catch\<close> logs the failure and returns the empty array.\<close>

definition listLocalObjectsFromDatabase ::
  "env \<Rightarrow> string list \<Rightarrow> string \<Rightarrow> world \<Rightarrow> (error + string list) \<times> world" where
  "listLocalObjectsFromDatabase en args bucketName w =
     (case listLocalObjectsFromDatabase_try en args bucketName w of
        (Inr keys, w1) \<Rightarrow> (Inr keys, w1)
      | (Inl e, w1) \<Rightarrow> (Inr [], logError (''Failed to list local objects: '' @ message e) w1))"

definition listLocalObjects ::
  "env \<Rightarrow> string list \<Rightarrow> string \<Rightarrow> world \<Rightarrow> (error + string list) \<times> world" where
  "listLocalObjects en args bucketName w =
     (case listLocalObjectsFromDatabase en args bucketName w of
        (Inr keys, w1) \<Rightarrow> (Inr keys, w1)
      | (Inl e, w1) \<Rightarrow>
          (Inr [],
           logWarning ''This might be normal if the local R2 bucket is empty or doesn't exist yet''
             (logWarning (''Failed to list local objects: '' @ message e) w1)))"

subsection \<open>Transfer pipeline\<close>

text \<open>
  \<open>downloadObject\<close>: first the body of its \<open>try\<close> block, where the request,
  the stream, creating the directory and writing the file can each throw; then the
  \<open>catch\<close>, which logs and throws the error again.
\<close>

definition downloadObject_try ::
  "env \<Rightarrow> string \<Rightarrow> string \<Rightarrow> string \<Rightarrow> world \<Rightarrow> (error + unit) \<times> world" where
  "downloadObject_try en bucketName key localPath w =
     (let w1 = emit (S3GetObject bucketName key) w
      in (case s3_get en (trace w) bucketName key of
            Inl e \<Rightarrow> (Inl e, w1)
          | Inr None \<Rightarrow> (Inl (Error ''No body in response''), w1)
          | Inr (Some (Inl e)) \<Rightarrow> (Inl e, w1)
          | Inr (Some (Inr buffer)) \<Rightarrow>
              (case ensureDirectoryExists (path_dirname localPath) w1 of
                 (Inl e, w2) \<Rightarrow> (Inl e, w2)
               | (Inr u, w2) \<Rightarrow>
                   (case writeFileSync localPath buffer w2 of
                      (Inl e, w3) \<Rightarrow> (Inl e, w3)
                    | (Inr v, w3) \<Rightarrow> (Inr (), logSuccess (''Downloaded: '' @ key) w3)))))"

definition downloadObject ::
  "env \<Rightarrow> string \<Rightarrow> string \<Rightarrow> string \<Rightarrow> world \<Rightarrow> (error + unit) \<times> world" where
  "downloadObject en bucketName key localPath w =
     (case downloadObject_try en bucketName key localPath w of
        (Inl e, w1) \<Rightarrow>
          (Inl e, logError (''Failed to download '' @ key @ '': '' @ message e) w1)
      | (Inr u, w1) \<Rightarrow> (Inr (), w1))"

definition uploadObjectToLocal ::
  "env \<Rightarrow> string \<Rightarrow> string \<Rightarrow> string \<Rightarrow> world \<Rightarrow> (error + unit) \<times> world" where
  "uploadObjectToLocal en bucketName key filePath w =
     (case execCommand en ''wrangler''
             [''r2'', ''object'', ''put'', bucketName @ ''/'' @ key, ''--file'', filePath] w of
        (Inr out, w1) \<Rightarrow> (Inr (), logSuccess (''Uploaded to local: '' @ key) w1)
      | (Inl e, w1) \<Rightarrow>
          (Inl e, logError (''Failed to upload '' @ key @ '' to local: '' @ message e) w1))"

text \<open>
  \<open>cleanLocalBucket\<close> removes a directory named by a string literal. No call inside
  its \<open>try\<close> throws in the model (\<open>rmSync\<close> with \<open>force\<close> does not fail
  on the tree), so it returns the world only.
\<close>

definition cleanLocalBucket :: "world \<Rightarrow> world" where
  "cleanLocalBucket w =
     (let w1 = logStep ''Cleaning local R2 bucket...'' w;
          wranglerPath = ''.wrangler/state/v3/r2''
      in if existsSync w1 wranglerPath
         then logSuccess ''Cleaned local bucket''
                (cleanupDirectory wranglerPath (logSuccess ''Cleaning local R2 bucket...'' w1))
         else logWarning ''Local R2 bucket does not exist'' w1)"

text \<open>
  One round of the \<open>for ... of\<close> loop of \<open>syncObjects\<close>: the result is the
  counter \<open>processed\<close> after the round, or the error thrown in it.
  \<open>planLength\<close> is \<open>objectsToSync.length\<close>; it and the counter are only printed.
\<close>

definition syncObjects_round ::
  "env \<Rightarrow> string \<Rightarrow> nat \<Rightarrow> nat \<Rightarrow> S3Object \<Rightarrow> world \<Rightarrow> (error + nat) \<times> world" where
  "syncObjects_round en bucketName planLength processed object w =
     (case Key object of
        None \<Rightarrow> (Inr processed, w)
      | Some key \<Rightarrow>
          if key = [] then (Inr processed, w)
          else
            let w1 = logStep (''['' @ show_nat (processed + 1) @ ''/'' @ show_nat planLength
                                @ ''] Processing: '' @ key) w;
                tempFilePath = path_join [TEMP_DIR, key]
            in (case downloadObject en bucketName key tempFilePath w1 of
                  (Inl e, w2) \<Rightarrow> (Inl e, w2)
                | (Inr u, w2) \<Rightarrow>
                    (case uploadObjectToLocal en bucketName key tempFilePath w2 of
                       (Inl e, w3) \<Rightarrow> (Inl e, w3)
                     | (Inr v, w3) \<Rightarrow>
                         if existsSync w3 tempFilePath
                         then (case unlinkSync tempFilePath w3 of
                                 (Inl e, w4) \<Rightarrow> (Inl e, w4)
                               | (Inr x, w4) \<Rightarrow> (Inr (processed + 1), w4))
                         else (Inr (processed + 1), w3))))"

text \<open>The loop: a round that throws ends it, and the objects after it are not visited.\<close>

fun syncObjects_from ::
  "env \<Rightarrow> string \<Rightarrow> nat \<Rightarrow> nat \<Rightarrow> S3Object list \<Rightarrow> world \<Rightarrow> (error + unit) \<times> world" where
  "syncObjects_from en bucketName planLength processed [] w = (Inr (), w)"
| "syncObjects_from en bucketName planLength processed (object # later) w =
     (case syncObjects_round en bucketName planLength processed object w of
        (Inl e, w1) \<Rightarrow> (Inl e, w1)
      | (Inr processed1, w1) \<Rightarrow> syncObjects_from en bucketName planLength processed1 later w1)"

definition syncObjects :: "env \<Rightarrow> string \<Rightarrow> S3Object list \<Rightarrow> world \<Rightarrow> (error + unit) \<times> world" where
  "syncObjects en bucketName objectsToSync w =
     syncObjects_from en bucketName (length objectsToSync) 0 objectsToSync w"

subsection \<open>Reconciler\<close>

text \<open>The \<open>filter\<close> callback that decides what needs to be synced.\<close>

definition needsSync :: "bool \<Rightarrow> bool \<Rightarrow> string list \<Rightarrow> S3Object \<Rightarrow> bool" where
  "needsSync force clean localObjects obj =
     (case Key obj of
        None \<Rightarrow> False
      | Some key \<Rightarrow>
          if key = [] then False
          else if force \<or> clean then True
          else key \<notin> set localObjects)"

definition objectsToSync :: "bool \<Rightarrow> bool \<Rightarrow> S3Object list \<Rightarrow> string list \<Rightarrow> S3Object list" where
  "objectsToSync force clean remoteObjects localObjects =
     filter (needsSync force clean localObjects) remoteObjects"

subsection \<open>Orchestrator\<close>

text \<open>
  \<open>syncR2ToLocal\<close> is only called by \<open>main\<close>, after the guard on
  \<open>BUCKET_NAME\<close>, so the bucket name it reads is a parameter here. The body of its
  \<open>try\<close> block is given in three parts, in the order of the source; a \<open>return\<close>
  inside the block is the result \<open>Inr ()\<close>.

  The local listing, made unless clean mode or force mode is on:
\<close>

definition localListing ::
  "env \<Rightarrow> string list \<Rightarrow> string \<Rightarrow> world \<Rightarrow> (error + string list) \<times> world" where
  "localListing en args bucket w =
     (if \<not> cleanSync args \<and> \<not> forceSync args
      then (case listLocalObjects en args bucket
                   (logStep ''Listing objects in local Wrangler R2...'' w) of
              (Inl e, w1) \<Rightarrow> (Inl e, w1)
            | (Inr localObjects, w1) \<Rightarrow>
                (Inr localObjects,
                 logSuccess (''Found '' @ show_nat (length localObjects)
                               @ '' objects in local bucket'') w1))
      else (Inr [], w))"

text \<open>What follows a remote listing that is not empty: the plan, and its transfer.\<close>

definition syncR2ToLocal_transfer ::
  "env \<Rightarrow> string list \<Rightarrow> string \<Rightarrow> S3Object list \<Rightarrow> world \<Rightarrow> (error + unit) \<times> world" where
  "syncR2ToLocal_transfer en args bucket remoteObjects w =
     (case localListing en args bucket
             (logSuccess (''Found '' @ show_nat (length remoteObjects)
                            @ '' objects in remote bucket'') w) of
        (Inl e, w1) \<Rightarrow> (Inl e, w1)
      | (Inr localObjects, w1) \<Rightarrow>
          (let plan = objectsToSync (forceSync args) (cleanSync args) remoteObjects localObjects
           in if length plan = 0
              then (Inr (), logSuccess ''All objects are already in sync!'' w1)
              else
                (case syncObjects en bucket plan
                        (logInfo (''Need to sync '' @ show_nat (length plan) @ '' objects'') w1) of
                   (Inl e, w2) \<Rightarrow> (Inl e, w2)
                 | (Inr u, w2) \<Rightarrow>
                     (Inr (),
                      logSuccess (''Successfully synced '' @ show_nat (length plan)
                                    @ '' objects to local Wrangler!'') w2))))"

text \<open>The block from its start: client, scratch directory, clean mode, remote listing.\<close>

definition syncR2ToLocal_try ::
  "env \<Rightarrow> string list \<Rightarrow> string \<Rightarrow> world \<Rightarrow> (error + unit) \<times> world" where
  "syncR2ToLocal_try en args bucket w =
     (let w1 = logStep ''Initializing remote R2 client...'' w
      in (case createRemoteClient en of
            Inl e \<Rightarrow> (Inl e, w1)
          | Inr remoteClient \<Rightarrow>
              (case ensureDirectoryExists TEMP_DIR w1 of
                 (Inl e, w2) \<Rightarrow> (Inl e, w2)
               | (Inr u, w2) \<Rightarrow>
                   (let w3 = (if cleanSync args
                              then cleanLocalBucket
                                     (logStep ''Clean mode enabled - removing all local objects...'' w2)
                              else w2);
                        w4 = logStep (''Listing objects in remote bucket: '' @ bucket @ ''...'') w3
                    in (case listRemoteObjects en bucket w4 of
                          (Inl e, w5) \<Rightarrow> (Inl e, w5)
                        | (Inr remoteObjects, w5) \<Rightarrow>
                            if length remoteObjects = 0
                            then (Inr (), logWarning ''No objects found in remote bucket'' w5)
                            else syncR2ToLocal_transfer en args bucket remoteObjects w5)))))"

text \<open>
  The whole function: the \<open>catch\<close> logs and throws the error again; the \<open>finally\<close>
  runs after the body however it ended.
\<close>

definition syncR2ToLocal ::
  "env \<Rightarrow> string list \<Rightarrow> string \<Rightarrow> world \<Rightarrow> (error + unit) \<times> world" where
  "syncR2ToLocal en args bucket w =
     (case syncR2ToLocal_try en args bucket
             (log Plain ''Starting R2 sync to local Wrangler...'' w) of
        (result, w1) \<Rightarrow>
          let w2 = (case result of
                      Inl e \<Rightarrow> logError (''Sync failed: '' @ message e) w1
                    | Inr u \<Rightarrow> w1);
              w3 = cleanupDirectory TEMP_DIR (logStep ''Cleaning up temporary files...'' w2)
          in (result, w3))"

subsection \<open>Pre-flight checks and \<open>main\<close>\<close>

text \<open>
  How a function that may call \<open>process.exit\<close> ends: it returns, or the process exits
  at once with the given status.
\<close>

datatype ending = Returned | Exit nat

definition required :: "string list" where
  "required = [''CLOUDFLARE_ACCOUNT_ID'', ''CLOUDFLARE_ACCESS_KEY_ID'', ''CLOUDFLARE_SECRET_ACCESS_KEY'']"

definition checkEnvironmentVariables :: "env \<Rightarrow> world \<Rightarrow> ending \<times> world" where
  "checkEnvironmentVariables en w =
     (let missing = filter (\<lambda>name. \<not> truthy (process_env en name)) required
      in if length missing > 0
         then (Exit 1,
               logError (CHR 0x0A # ''Please set these in your environment or in a .env file'')
                 (fold (\<lambda>name. logError (''  - '' @ name)) missing
                    (logError ''Missing required environment variables:'' w)))
         else (Returned, w))"

definition checkWranglerAvailable :: "env \<Rightarrow> world \<Rightarrow> ending \<times> world" where
  "checkWranglerAvailable en w =
     (case execCommand en ''npx'' [''wrangler'', ''--version''] w of
        (Inr out, w1) \<Rightarrow> (Returned, logSuccess ''Wrangler CLI is available'' w1)
      | (Inl e, w1) \<Rightarrow>
          (Exit 1,
           logError ''Please install Wrangler: npm install -g wrangler''
             (logError ''Wrangler CLI is not available or not in PATH'' w1)))"

text \<open>
  \<open>main\<close>, with the mode announcement it prints. An exception that reaches its
  \<open>catch\<close> ends the process with \<open>process.exit(1)\<close>.
\<close>

definition announceMode :: "string list \<Rightarrow> world \<Rightarrow> world" where
  "announceMode args w =
     (if cleanSync args then logInfo ''Clean mode enabled - will delete all local objects first'' w
      else if forceSync args then logInfo ''Force mode enabled - will overwrite all objects'' w
      else logInfo ''Normal mode - will sync only missing objects'' w)"

text \<open>The rest of \<open>main\<close> once the bucket name is known to be truthy.\<close>

definition main_run :: "env \<Rightarrow> string list \<Rightarrow> string \<Rightarrow> world \<Rightarrow> ending \<times> world" where
  "main_run en args bucket w =
     (case checkEnvironmentVariables en
             (announceMode args
                (logInfo (''Using bucket name: '' @ bucket)
                   (logInfo (''Using wrangler directory: '' @ wranglerDir args) w))) of
        (Exit status, w1) \<Rightarrow> (Exit status, w1)
      | (Returned, w1) \<Rightarrow>
          (case checkWranglerAvailable en (logInfo ''Environment variables checked'' w1) of
             (Exit status, w2) \<Rightarrow> (Exit status, w2)
           | (Returned, w2) \<Rightarrow>
               (case syncR2ToLocal en args bucket (logInfo ''Wrangler available'' w2) of
                  (Inr u, w3) \<Rightarrow> (Returned, w3)
                | (Inl e, w3) \<Rightarrow> (Exit 1, logError (''Script failed: '' @ message e) w3))))"

definition main :: "env \<Rightarrow> string list \<Rightarrow> world \<Rightarrow> ending \<times> world" where
  "main en args w =
     (if ''--help'' \<in> set args \<or> ''-h'' \<in> set args then (Returned, printUsage w)
      else
        (case BUCKET_NAME args of
           None \<Rightarrow> (Returned, printUsage (logError ''Bucket name is required'' w))
         | Some bucket \<Rightarrow>
             if bucket = [] then (Returned, printUsage (logError ''Bucket name is required'' w))
             else main_run en args bucket w))"

text \<open>
  The status the process ends with: the argument of \<open>process.exit\<close>, or 0 when
  \<open>main\<close> returns and nothing is left to run.
\<close>

fun exit_status :: "ending \<Rightarrow> nat" where
  "exit_status Returned = 0"
| "exit_status (Exit status) = status"

subsection \<open>The specification's predicates\<close>

text \<open>
  The reconciler in the words of the specification. In normal mode an object is selected
  when its key is defined, not empty, and absent from the local keys. In force or clean
  mode the guard on the key is all that is left.
\<close>

definition missingLocally :: "string list \<Rightarrow> S3Object \<Rightarrow> bool" where
  "missingLocally localKeys obj =
     (case Key obj of None \<Rightarrow> False | Some k \<Rightarrow> k \<noteq> [] \<and> k \<notin> set localKeys)"

definition hasKey :: "S3Object \<Rightarrow> bool" where
  "hasKey obj = truthy (Key obj)"


definition put_args :: "string \<Rightarrow> string \<Rightarrow> string list" where
  "put_args bucketName key =
     [''r2'', ''object'', ''put'', bucketName @ ''/'' @ key, ''--file'', path_join [TEMP_DIR, key]]"

text \<open>The calls a run has added to the trace: what \<open>w'\<close> holds after the trace of \<open>w\<close>.\<close>

definition added :: "world \<Rightarrow> world \<Rightarrow> event list" where
  "added w w' = drop (length (trace w)) (trace w')"

text \<open>The informational exit for a missing bucket name: the message, the usage, a return.\<close>

definition missingBucketExit :: "env \<Rightarrow> string list \<Rightarrow> world \<Rightarrow> bool" where
  "missingBucketExit en args w =
     (main en args w = (Returned, printUsage (logError ''Bucket name is required'' w)))"

text \<open>
  Properties of the world that every step of the script keeps. A property is \<open>stable\<close>
  when logging, changing the file system and every call other than the database query keep
  it; \<open>stable_reads\<close> when the database query keeps it too. \<open>grows\<close> says that the
  trace and the console have only been extended.
\<close>

fun is_SqliteAll :: "event \<Rightarrow> bool" where
  "is_SqliteAll (SqliteAll p) = True"
| "is_SqliteAll e = False"

definition stable :: "(world \<Rightarrow> bool) \<Rightarrow> bool" where
  "stable R =
     ((\<forall>w lv m. R w \<longrightarrow> R (log lv m w))
      \<and> (\<forall>w. R w \<longrightarrow> R (printUsage w))
      \<and> (\<forall>w t. R w \<longrightarrow> R (w\<lparr>fs := t\<rparr>))
      \<and> (\<forall>w e. R w \<longrightarrow> \<not> is_SqliteAll e \<longrightarrow> R (emit e w)))"

definition stable_reads :: "(world \<Rightarrow> bool) \<Rightarrow> bool" where
  "stable_reads R = (\<forall>w p. R w \<longrightarrow> R (emit (SqliteAll p) w))"

definition reads_or_skips :: "(world \<Rightarrow> bool) \<Rightarrow> string list \<Rightarrow> bool" where
  "reads_or_skips R args = (cleanSync args \<or> forceSync args \<or> stable_reads R)"

definition grows :: "world \<Rightarrow> world \<Rightarrow> bool" where
  "grows w w' = (prefix (trace w) (trace w') \<and> prefix (console w) (console w'))"

subsection \<open>Example environments and worlds\<close>

text \<open>
  Concrete inputs for the runs evaluated below. \<open>path_to\<close> builds the directories down
  to a node. \<open>toy_crypto\<close> is a digest pair with constant answers, enough where only a
  file name is needed. In \<open>env_with\<close> the credentials are set, the remote bucket answers
  with one page holding the given listing, every download gives three bytes, every
  command succeeds and leaves the file system as it found it, and the local database
  holds the key \<open>notes.txt\<close>.
\<close>

fun path_to :: "string list \<Rightarrow> node \<Rightarrow> node" where
  "path_to [] n = n"
| "path_to (s # p) n = Dir [(s, path_to p n)]"

definition toy_crypto :: crypto where
  "toy_crypto = \<lparr>sha256 = (\<lambda>d. replicate 32 0x11), hmac_sha256 = (\<lambda>k d. replicate 32 0x2a)\<rparr>"

definition tool_ok :: "event list \<Rightarrow> node \<Rightarrow> string \<Rightarrow> string list \<Rightarrow> spawned" where
  "tool_ok tr files command args = \<lparr>code = Some 0, stdout = [], stderr = [], fs_after = files\<rparr>"

definition obj :: "string \<Rightarrow> S3Object" where
  "obj k = \<lparr>Key = Some k, Size = Some 3, ETag = Some ''e''\<rparr>"

definition keyless :: S3Object where
  "keyless = \<lparr>Key = None, Size = Some 0, ETag = None\<rparr>"

definition env_with :: "S3Object list \<Rightarrow> env" where
  "env_with listing =
     \<lparr>process_env = (\<lambda>name. if name \<in> set required then Some ''secret'' else None),
      node_crypto = toy_crypto,
      s3_list = (\<lambda>b. Response (Some listing) None (SendError (Error ''no further request''))),
      s3_get = (\<lambda>tr b k. Inr (Some (Inr [1, 2, 3]))),
      spawn = tool_ok,
      sqlite_all = (\<lambda>tr p. Inr [''notes.txt''])\<rparr>"

text \<open>Environments where one party fails: no credentials, no wrangler, a refused listing,
  a database that cannot be read, and an upload of \<open>notes.txt\<close> that exits with 1.\<close>

definition no_credentials_env :: env where
  "no_credentials_env = (env_with [obj ''photos/a.jpg'', obj ''notes.txt''])\<lparr>process_env := (\<lambda>name. None)\<rparr>"

definition no_wrangler_env :: env where
  "no_wrangler_env =
     (env_with [obj ''photos/a.jpg'', obj ''notes.txt''])
       \<lparr>spawn := (\<lambda>tr files command args.
                 \<lparr>code = Some 127, stdout = [], stderr = ''npx: not found'', fs_after = files\<rparr>)\<rparr>"

definition denied_env :: env where
  "denied_env = (env_with [])\<lparr>s3_list := (\<lambda>b. SendError (Error ''Access Denied''))\<rparr>"


definition flaky_env :: env where
  "flaky_env =
     (env_with [obj ''photos/a.jpg'', obj ''notes.txt'', obj ''video.mp4''])
       \<lparr>spawn := (\<lambda>tr files command args.
                 if command = ''wrangler'' \<and> args = put_args ''b'' ''notes.txt''
                 then \<lparr>code = Some 1, stdout = [], stderr = ''fetch failed'', fs_after = files\<rparr>
                 else tool_ok tr files command args)\<rparr>"

text \<open>
  Worlds: a project directory \<open>/srv/shop\<close> that is empty; the same with files left in
  the scratch directory; with the state directory of the local store; with the database
  of bucket \<open>b\<close> in it.
\<close>

definition bare :: world where
  "bare = \<lparr>fs = path_to [''srv'', ''shop''] (Dir []), cwd = [''srv'', ''shop''], trace = [], console = []\<rparr>"

definition littered :: world where
  "littered =
     \<lparr>fs = path_to [''srv'', ''shop'']
             (Dir [(''temp-r2-sync'', Dir [(''stale'', Dir [(''old.bin'', File [7])])])]),
      cwd = [''srv'', ''shop''], trace = [], console = []\<rparr>"

definition state_dir :: "string list" where
  "state_dir = [''srv'', ''shop'', ''.wrangler'', ''state'', ''v3'', ''r2'', ''miniflare-R2BucketObject'']"


definition with_database :: world where
  "with_database =
     bare\<lparr>fs := path_to state_dir
                    (Dir [(durableObjectNamespaceIdFromName toy_crypto MINIFLARE_KEY ''b'' @ ''.sqlite'',
                           File [])])\<rparr>"

text \<open>
  A project whose wrangler directory is shared: the script is run in \<open>/srv/shop/web\<close>
  with \<open>--wrangler-dir=../.wrangler\<close>, so the local store it reads is under
  \<open>/srv/shop/.wrangler\<close>. The directory \<open>/srv/shop/web/.wrangler\<close> also holds a
  state tree, which this command line does not name.
\<close>

definition monorepo :: world where
  "monorepo =
     \<lparr>fs = path_to [''srv'', ''shop'']
             (Dir [(''.wrangler'',
                    path_to [''state'', ''v3'', ''r2'', ''miniflare-R2BucketObject'']
                      (Dir [(''kept.sqlite'', File [1])])),
                   (''web'',
                    path_to [''.wrangler'', ''state'', ''v3'', ''r2'', ''miniflare-R2BucketObject'']
                      (Dir [(''other.sqlite'', File [2])]))]),
      cwd = [''srv'', ''shop'', ''web''], trace = [], console = []\<rparr>"

definition monorepo_args :: "string list" where
  "monorepo_args = [''b'', ''--clean'', ''--wrangler-dir=../.wrangler'']"

section \<open>Verification\<close>

lemmas log_helpers = logSuccess_def logError_def logWarning_def logInfo_def logStep_def

subsection \<open>Digest lengths of the concrete instance\<close>

lemma length_round_step [simp]: "length (round_step st kw) = 8"
  by (simp add: round_step_def Let_def)

lemma length_rounds: "length st = 8 \<Longrightarrow> length (rounds ks ws st) = 8"
proof -
  have "length st = 8 \<Longrightarrow> length (foldl round_step st kws) = 8" for kws
    by (induction kws arbitrary: st) simp_all
  then show "length st = 8 \<Longrightarrow> length (rounds ks ws st) = 8"
    by (simp add: rounds_def)
qed

lemma length_compress: "length st = 8 \<Longrightarrow> length (compress st block) = 8"
  by (simp add: compress_def Let_def length_rounds)

lemma length_foldl_compress: "length st = 8 \<Longrightarrow> length (foldl compress st blocks) = 8"
  by (induction blocks arbitrary: st) (simp_all add: length_compress)

lemma length_concat_word_bytes: "length (concat (map word_bytes ws)) = 4 * length ws"
  by (induction ws) (simp_all add: word_bytes_def)

lemma length_H256: "length H256 = 8"
proof -
  have "length (filter is_prime [2..19]) = 8"
    by code_simp
  then show ?thesis
    by (simp add: H256_def)
qed

lemma length_sha256_bytes [simp]: "length (sha256_bytes m) = 32"
  by (simp add: sha256_bytes_def Let_def length_concat_word_bytes length_foldl_compress length_H256)

lemma length_hmac_bytes [simp]: "length (hmac_bytes key m) = 32"
  by (simp add: hmac_bytes_def Let_def)

lemma fips_crypto_lengths: "\<forall>k m. length (hmac_sha256 fips_crypto k m) = 32"
  by (simp add: fips_crypto_def)

subsection \<open>Identifier derivation\<close>

lemma length_toString_hex: "length (toString_hex bs) = 2 * length bs"
  by (induction bs) (auto simp: toString_hex_def hex_byte_def)

lemma hex_digit_is_hex: "n < 16 \<Longrightarrow> is_hex_char (hex_digit n)"
proof -
  assume "n < 16"
  have "list_all (\<lambda>i. is_hex_char (hex_digit i)) [0..<16]"
    by code_simp
  with \<open>n < 16\<close> show ?thesis
    by (simp add: list_all_iff)
qed

lemma hex_byte_is_hex: "list_all is_hex_char (hex_byte b)"
proof -
  have "unat b < 256"
    using unsigned_less [of b] by simp
  then have "unat b div 16 < 16"
    by simp
  then show ?thesis
    by (simp add: hex_byte_def hex_digit_is_hex)
qed

lemma toString_hex_is_hex: "list_all is_hex_char (toString_hex bs)"
  by (induction bs) (use hex_byte_is_hex in \<open>auto simp: toString_hex_def\<close>)

text \<open>
  Claim C1. For every bucket name \<open>B\<close>, the identifier the code derives with the
  namespace constant is a function of \<open>B\<close> alone and is the hexadecimal encoding of
  \<open>nameDigest || hmac\<close>, where \<open>key\<close> is the SHA-256 of the namespace constant,
  \<open>nameDigest\<close> the first 16 bytes of HMAC-SHA256(\<open>key\<close>, \<open>B\<close>) and
  \<open>hmac\<close> the first 16 bytes of HMAC-SHA256(\<open>key\<close>, \<open>nameDigest\<close>). With an
  HMAC that returns 32 bytes, as HMAC-SHA256 does, the two parts are 16 bytes each and
  the identifier is exactly 64 characters, all of them hexadecimal digits.
\<close>

theorem deriveId_hex64:
  assumes "\<forall>k m. length (hmac_sha256 cr k m) = 32"
  shows "durableObjectNamespaceIdFromName cr MINIFLARE_KEY B
           = toString_hex (deriveId_nameDigest cr B @ deriveId_hmac cr B)
       \<and> length (deriveId_nameDigest cr B) = 16
       \<and> length (deriveId_hmac cr B) = 16
       \<and> length (durableObjectNamespaceIdFromName cr MINIFLARE_KEY B) = 64
       \<and> list_all is_hex_char (durableObjectNamespaceIdFromName cr MINIFLARE_KEY B)"
proof -
  have eq: "durableObjectNamespaceIdFromName cr MINIFLARE_KEY B
              = toString_hex (deriveId_nameDigest cr B @ deriveId_hmac cr B)"
    by (simp add: durableObjectNamespaceIdFromName_def deriveId_nameDigest_def
          deriveId_hmac_def deriveId_key_def Let_def)
  have n: "length (deriveId_nameDigest cr B) = 16"
    using assms by (simp add: deriveId_nameDigest_def)
  have h: "length (deriveId_hmac cr B) = 16"
    using assms by (simp add: deriveId_hmac_def)
  show ?thesis
    unfolding eq using n h by (simp add: length_toString_hex toString_hex_is_hex)
qed

theorem deriveId_hex64_witness:
  "(\<forall>k m. length (hmac_sha256 fips_crypto k m) = 32)
   \<and> length (durableObjectNamespaceIdFromName fips_crypto MINIFLARE_KEY ''my-bucket'') = 64
   \<and> list_all is_hex_char (durableObjectNamespaceIdFromName fips_crypto MINIFLARE_KEY ''my-bucket'')"
  using deriveId_hex64 [OF fips_crypto_lengths, of "''my-bucket''"] fips_crypto_lengths
  by blast

subsection \<open>Reconciler\<close>

lemma needsSync_normal: "needsSync False False localObjects = missingLocally localObjects"
  by (auto simp: needsSync_def missingLocally_def fun_eq_iff split: option.splits)

lemma needsSync_all: "force \<or> clean \<Longrightarrow> needsSync force clean localObjects = hasKey"
  by (auto simp: needsSync_def hasKey_def fun_eq_iff split: option.splits)

lemma count_list_filter:
  "count_list (filter P xs) x = (if P x then count_list xs x else 0)"
  by (induction xs) auto

text \<open>
  Claim C3. In normal mode (force and clean both false) the plan is the remote listing
  filtered by "key defined, not empty, and absent from the local keys": exactly those
  objects are selected, they keep the relative order of the listing, and each selected
  object occurs in the plan as often as in the listing (nothing is merged).
\<close>

theorem objectsToSync_normal_mode:
  "objectsToSync False False remoteObjects localObjects
     = filter (missingLocally localObjects) remoteObjects
   \<and> subseq (objectsToSync False False remoteObjects localObjects) remoteObjects
   \<and> (\<forall>obj. count_list (objectsToSync False False remoteObjects localObjects) obj
         = (if missingLocally localObjects obj then count_list remoteObjects obj else 0))"
proof -
  have "objectsToSync False False remoteObjects localObjects
          = filter (missingLocally localObjects) remoteObjects"
    by (simp add: objectsToSync_def needsSync_normal)
  then show ?thesis
    by (simp add: count_list_filter)
qed

subsection \<open>What every step keeps\<close>

text \<open>
  Each function of the script keeps every stable property of the world; the functions
  that may query the local database keep it when the query keeps it, or when the mode
  skips the local listing.
\<close>
lemma fs_log [simp]: "fs (log lv m w) = fs w"
  by (simp add: log_def)

lemma cwd_log [simp]: "cwd (log lv m w) = cwd w"
  by (simp add: log_def)

lemma trace_log [simp]: "trace (log lv m w) = trace w"
  by (simp add: log_def)

lemma console_log [simp]: "console (log lv m w) = console w @ [Log lv m]"
  by (simp add: log_def)

lemma fs_emit [simp]: "fs (emit e w) = fs w"
  by (simp add: emit_def)

lemma cwd_emit [simp]: "cwd (emit e w) = cwd w"
  by (simp add: emit_def)

lemma trace_emit [simp]: "trace (emit e w) = trace w @ [e]"
  by (simp add: emit_def)

lemma console_emit [simp]: "console (emit e w) = console w"
  by (simp add: emit_def)

lemma existsSync_log [simp]: "existsSync (log lv m w) p = existsSync w p"
  by (simp add: existsSync_def)

lemma existsSync_emit [simp]: "existsSync (emit e w) p = existsSync w p"
  by (simp add: existsSync_def)

lemma stable_log: "stable R \<Longrightarrow> R w \<Longrightarrow> R (log lv m w)"
  by (simp add: stable_def)

lemma stable_printUsage: "stable R \<Longrightarrow> R w \<Longrightarrow> R (printUsage w)"
  by (simp add: stable_def)

lemma stable_fs: "stable R \<Longrightarrow> R w \<Longrightarrow> R (w\<lparr>fs := t\<rparr>)"
  by (simp add: stable_def)

lemma stable_emit: "stable R \<Longrightarrow> \<not> is_SqliteAll e \<Longrightarrow> R w \<Longrightarrow> R (emit e w)"
  by (simp add: stable_def)

lemma stable_emit_read: "stable_reads R \<Longrightarrow> R w \<Longrightarrow> R (emit (SqliteAll p) w)"
  by (simp add: stable_reads_def)

lemmas stable_basics = stable_log stable_printUsage stable_fs stable_emit

lemma stable_mkdirSync: "stable R \<Longrightarrow> R w \<Longrightarrow> R (snd (mkdirSync p w))"
  by (simp add: mkdirSync_def stable_basics split: sum.splits)

lemma stable_rmSync: "stable R \<Longrightarrow> R w \<Longrightarrow> R (rmSync p w)"
  by (simp add: rmSync_def stable_basics)

lemma stable_writeFileSync: "stable R \<Longrightarrow> R w \<Longrightarrow> R (snd (writeFileSync p b w))"
  by (simp add: writeFileSync_def stable_basics split: sum.splits)

lemma stable_unlinkSync: "stable R \<Longrightarrow> R w \<Longrightarrow> R (snd (unlinkSync p w))"
  by (simp add: unlinkSync_def stable_basics split: sum.splits)

lemma stable_ensureDirectoryExists:
  "stable R \<Longrightarrow> R w \<Longrightarrow> R (snd (ensureDirectoryExists dir w))"
  by (simp add: ensureDirectoryExists_def case_prod_unfold log_helpers stable_basics
      stable_mkdirSync split: sum.splits)

lemma stable_cleanupDirectory: "stable R \<Longrightarrow> R w \<Longrightarrow> R (cleanupDirectory dir w)"
  by (simp add: cleanupDirectory_def log_helpers stable_basics stable_rmSync)

lemma stable_cleanLocalBucket: "stable R \<Longrightarrow> R w \<Longrightarrow> R (cleanLocalBucket w)"
  by (simp add: cleanLocalBucket_def Let_def log_helpers stable_basics stable_cleanupDirectory)

lemma stable_execCommand: "stable R \<Longrightarrow> R w \<Longrightarrow> R (snd (execCommand en c args w))"
  by (simp add: execCommand_def Let_def stable_basics)

lemma stable_listRemoteObjects_pages:
  "stable R \<Longrightarrow> R w \<Longrightarrow> R (snd (listRemoteObjects_pages script b objs tok w))"
proof (induction script arbitrary: objs tok w)
  case (SendError e)
  then show ?case by (simp add: log_helpers stable_basics)
next
  case (Response contents nxt later)
  then show ?case by (simp add: Let_def stable_basics)
qed

lemma stable_listRemoteObjects:
  "stable R \<Longrightarrow> R w \<Longrightarrow> R (snd (listRemoteObjects en b w))"
  by (simp add: listRemoteObjects_def stable_listRemoteObjects_pages)

lemma stable_listLocalObjects:
  "stable R \<Longrightarrow> stable_reads R \<Longrightarrow> R w \<Longrightarrow> R (snd (listLocalObjects en args b w))"
  by (simp add: listLocalObjects_def listLocalObjectsFromDatabase_def
      listLocalObjectsFromDatabase_try_def Let_def case_prod_unfold log_helpers
      stable_basics stable_emit_read split: sum.splits)

lemma stable_downloadObject_try:
  "stable R \<Longrightarrow> R w \<Longrightarrow> R (snd (downloadObject_try en b k p w))"
  by (simp add: downloadObject_try_def Let_def case_prod_unfold log_helpers stable_basics
      stable_ensureDirectoryExists stable_writeFileSync split: sum.splits option.splits)

lemma stable_downloadObject:
  "stable R \<Longrightarrow> R w \<Longrightarrow> R (snd (downloadObject en b k p w))"
  by (simp add: downloadObject_def case_prod_unfold log_helpers stable_basics
      stable_downloadObject_try split: sum.splits)

lemma stable_uploadObjectToLocal:
  "stable R \<Longrightarrow> R w \<Longrightarrow> R (snd (uploadObjectToLocal en b k p w))"
  by (simp add: uploadObjectToLocal_def case_prod_unfold log_helpers stable_basics
      stable_execCommand split: sum.splits)

lemma stable_syncObjects_round:
  "stable R \<Longrightarrow> R w \<Longrightarrow> R (snd (syncObjects_round en b n p x w))"
  by (simp add: syncObjects_round_def Let_def case_prod_unfold log_helpers stable_basics
      stable_downloadObject stable_uploadObjectToLocal stable_unlinkSync
      split: option.splits sum.splits)

lemma stable_syncObjects_from:
  "stable R \<Longrightarrow> R w \<Longrightarrow> R (snd (syncObjects_from en b n p objs w))"
proof (induction objs arbitrary: p w)
  case Nil
  then show ?case by simp
next
  case (Cons x objs)
  then show ?case
    by (simp add: case_prod_unfold stable_syncObjects_round split: sum.splits)
qed

lemma stable_syncObjects: "stable R \<Longrightarrow> R w \<Longrightarrow> R (snd (syncObjects en b plan w))"
  by (simp add: syncObjects_def stable_syncObjects_from)

lemma stable_localListing:
  "stable R \<Longrightarrow> reads_or_skips R args \<Longrightarrow> R w \<Longrightarrow> R (snd (localListing en args b w))"
  by (auto simp: localListing_def reads_or_skips_def case_prod_unfold log_helpers stable_basics
      stable_listLocalObjects split: sum.splits)

lemma stable_syncR2ToLocal_transfer:
  "stable R \<Longrightarrow> reads_or_skips R args \<Longrightarrow> R w
     \<Longrightarrow> R (snd (syncR2ToLocal_transfer en args b remote w))"
  by (simp add: syncR2ToLocal_transfer_def Let_def case_prod_unfold log_helpers stable_basics
      stable_localListing stable_syncObjects split: sum.splits)

lemma stable_syncR2ToLocal_try:
  "stable R \<Longrightarrow> reads_or_skips R args \<Longrightarrow> R w
     \<Longrightarrow> R (snd (syncR2ToLocal_try en args b w))"
  by (simp add: syncR2ToLocal_try_def Let_def case_prod_unfold log_helpers stable_basics
      stable_ensureDirectoryExists stable_cleanLocalBucket stable_listRemoteObjects
      stable_syncR2ToLocal_transfer split: sum.splits)

lemma stable_syncR2ToLocal:
  "stable R \<Longrightarrow> reads_or_skips R args \<Longrightarrow> R w
     \<Longrightarrow> R (snd (syncR2ToLocal en args b w))"
  by (simp add: syncR2ToLocal_def Let_def case_prod_unfold log_helpers stable_basics
      stable_cleanupDirectory stable_syncR2ToLocal_try split: sum.splits)

lemma stable_fold_logError:
  "stable R \<Longrightarrow> R w \<Longrightarrow> R (fold (\<lambda>name. logError (f name)) names w)"
  by (induction names arbitrary: w) (simp_all add: log_helpers stable_basics)

lemma stable_checkEnvironmentVariables:
  "stable R \<Longrightarrow> R w \<Longrightarrow> R (snd (checkEnvironmentVariables en w))"
  using stable_fold_logError [of R _ "\<lambda>name. ''  - '' @ name"]
  by (simp add: checkEnvironmentVariables_def Let_def stable_basics logError_def)

lemma stable_checkWranglerAvailable:
  "stable R \<Longrightarrow> R w \<Longrightarrow> R (snd (checkWranglerAvailable en w))"
  by (simp add: checkWranglerAvailable_def case_prod_unfold log_helpers stable_basics
      stable_execCommand split: sum.splits)

lemma stable_main_run:
  "stable R \<Longrightarrow> reads_or_skips R args
     \<Longrightarrow> R (announceMode args
            (logInfo (''Using bucket name: '' @ b)
               (logInfo (''Using wrangler directory: '' @ wranglerDir args) w)))
     \<Longrightarrow> R (snd (main_run en args b w))"
  by (simp add: main_run_def case_prod_unfold log_helpers stable_basics
      stable_checkEnvironmentVariables stable_checkWranglerAvailable stable_syncR2ToLocal
      split: sum.splits ending.splits)

lemma stable_grows: "stable (grows a)"
  by (auto simp: stable_def grows_def printUsage_def intro: prefix_order.trans)

lemma stable_reads_grows: "stable_reads (grows a)"
  by (auto simp: stable_reads_def grows_def intro: prefix_order.trans)

lemma grows_refl [simp]: "grows w w"
  by (simp add: grows_def)

lemma stable_cwd: "stable (\<lambda>w. cwd w = c)"
  by (simp add: stable_def printUsage_def)

lemma stable_reads_cwd: "stable_reads (\<lambda>w. cwd w = c)"
  by (simp add: stable_reads_def)

lemma cwd_syncR2ToLocal: "cwd (snd (syncR2ToLocal en args b w)) = cwd w"
  by (rule stable_syncR2ToLocal [OF stable_cwd])
     (simp_all add: reads_or_skips_def stable_reads_cwd)

subsection \<open>The scratch directory\<close>
lemma map_of_put_entry [simp]:
  "map_of (put_entry s n es) t = (if t = s then Some n else map_of es t)"
proof -
  have "t \<noteq> s \<Longrightarrow> map_of (filter (\<lambda>e. fst e \<noteq> s) es) t = map_of es t"
    by (induction es) auto
  then show ?thesis
    by (simp add: put_entry_def)
qed

lemma map_of_drop_entry [simp]:
  "map_of (drop_entry s es) t = (if t = s then None else map_of es t)"
  unfolding drop_entry_def by (induction es) auto

lemma lookup_below_None: "lookup n p = None \<Longrightarrow> lookup n (p @ q) = None"
proof (induction n p rule: lookup.induct)
  case (3 es s p)
  then show ?case by (simp split: option.splits)
qed simp_all

lemma lookup_removed: "p \<noteq> [] \<Longrightarrow> lookup (removed n p) p = None"
  by (induction n p rule: removed.induct) (simp_all split: option.splits)

lemma lookup_removed_below: "p \<noteq> [] \<Longrightarrow> lookup (removed n p) (p @ q) = None"
  by (simp add: lookup_below_None lookup_removed)

lemma normalizeString_append:
  "normalizeString (xs @ ys) a r = normalizeString ys a (normalizeString xs a r)"
  by (induction xs a r rule: normalizeString.induct) simp_all

lemma resolve_TEMP_DIR:
  "resolve c TEMP_DIR = normalizeString c False [] @ [''temp-r2-sync'']"
  by (simp add: resolve_def TEMP_DIR_def isAbsolute_def normalizeString_append)

lemma cleanupDirectory_gone:
  assumes "dir \<noteq> []" and "\<not> trailingSlash dir" and "resolve (cwd w) dir \<noteq> []"
  shows "lookup (fs (cleanupDirectory dir w)) (resolve (cwd w) dir @ below) = None"
proof (cases "existsSync w dir")
  case True
  then show ?thesis
    using assms by (simp add: cleanupDirectory_def rmSync_def log_helpers lookup_removed_below)
next
  case False
  with assms have "lookup (fs w) (resolve (cwd w) dir) = None"
    by (simp add: existsSync_def split: option.splits)
  with False show ?thesis
    by (simp add: cleanupDirectory_def lookup_below_None)
qed

lemma cleanupDirectory_absent:
  "dir \<noteq> [] \<Longrightarrow> \<not> trailingSlash dir \<Longrightarrow> resolve (cwd w) dir \<noteq> []
     \<Longrightarrow> \<not> existsSync (cleanupDirectory dir w) dir"
  using cleanupDirectory_gone [of dir w "[]"]
  by (simp add: existsSync_def cleanupDirectory_def rmSync_def log_helpers split: if_splits)

lemma cwd_cleanupDirectory [simp]: "cwd (cleanupDirectory dir w) = cwd w"
  by (simp add: cleanupDirectory_def rmSync_def log_helpers)
text \<open>
  Claim C5. However a run of \<open>syncR2ToLocal\<close> ends (the transfer completes, the
  remote listing or the plan is empty, or an error is thrown anywhere in the body), and
  whatever the file system, the environment and the spawned commands were, afterwards
  the scratch directory does not exist, and neither does any path below it: the
  \<open>finally\<close> block has removed the directory with everything in it. The run does not
  change the working directory, so the path names the same place before and after.
  (The file system of the model has no permissions: \<open>rm\<close> with \<open>force\<close> does
  not fail on it.)
\<close>

theorem scratch_removed:
  "\<not> existsSync (snd (syncR2ToLocal en args bucket w)) TEMP_DIR
   \<and> (\<forall>below. lookup (fs (snd (syncR2ToLocal en args bucket w)))
                    (resolve (cwd w) TEMP_DIR @ below) = None)
   \<and> cwd (snd (syncR2ToLocal en args bucket w)) = cwd w"
proof -
  obtain result w1 where body:
    "syncR2ToLocal_try en args bucket (log Plain ''Starting R2 sync to local Wrangler...'' w)
       = (result, w1)"
    by (cases "syncR2ToLocal_try en args bucket (log Plain ''Starting R2 sync to local Wrangler...'' w)")
  define w2 where "w2 = logStep ''Cleaning up temporary files...''
      (case result of Inl e \<Rightarrow> logError (''Sync failed: '' @ message e) w1 | Inr u \<Rightarrow> w1)"
  have final: "snd (syncR2ToLocal en args bucket w) = cleanupDirectory TEMP_DIR w2"
    by (simp add: syncR2ToLocal_def body w2_def Let_def)
  have c: "cwd (snd (syncR2ToLocal en args bucket w)) = cwd w"
    by (rule cwd_syncR2ToLocal)
  then have c2: "cwd w2 = cwd w"
    by (simp add: final)
  have t: "TEMP_DIR \<noteq> []" "\<not> trailingSlash TEMP_DIR" "resolve (cwd w2) TEMP_DIR \<noteq> []"
    by (simp_all add: resolve_TEMP_DIR) (simp_all add: TEMP_DIR_def trailingSlash_def)
  show ?thesis
    unfolding final
    using cleanupDirectory_absent [OF t] cleanupDirectory_gone [OF t] c2
    by simp
qed

theorem scratch_removed_witness:
  "existsSync littered TEMP_DIR
   \<and> lookup (fs littered) (resolve (cwd littered) TEMP_DIR @ [''stale'', ''old.bin'']) = Some (File [7])
   \<and> fst (syncR2ToLocal (env_with [obj ''photos/a.jpg'', obj ''notes.txt'']) [''b'', ''--force''] ''b'' littered)
       = Inr ()
   \<and> \<not> existsSync (snd (syncR2ToLocal (env_with [obj ''photos/a.jpg'', obj ''notes.txt''])
                              [''b'', ''--force''] ''b'' littered)) TEMP_DIR
   \<and> lookup (fs (snd (syncR2ToLocal (env_with [obj ''photos/a.jpg'', obj ''notes.txt''])
                         [''b'', ''--force''] ''b'' littered)))
         (resolve (cwd littered) TEMP_DIR @ [''stale'', ''old.bin'']) = None
   \<and> lookup (fs (snd (syncR2ToLocal (env_with [obj ''photos/a.jpg'', obj ''notes.txt''])
                         [''b'', ''--force''] ''b'' littered)))
         (resolve (cwd littered) TEMP_DIR @ [''photos'']) = None
   \<and> fst (syncR2ToLocal (env_with []) [''b''] ''b'' littered) = Inr ()
   \<and> \<not> existsSync (snd (syncR2ToLocal (env_with []) [''b''] ''b'' littered)) TEMP_DIR
   \<and> fst (syncR2ToLocal (env_with [keyless]) [''b''] ''b'' littered) = Inr ()
   \<and> \<not> existsSync (snd (syncR2ToLocal (env_with [keyless]) [''b''] ''b'' littered)) TEMP_DIR
   \<and> fst (syncR2ToLocal denied_env [''b''] ''b'' littered) = Inl (Error ''Access Denied'')
   \<and> \<not> existsSync (snd (syncR2ToLocal denied_env [''b''] ''b'' littered)) TEMP_DIR
   \<and> fst (syncR2ToLocal (env_with [obj ''photos/a.jpg'', obj ''photos/''])
             [''b'', ''--force''] ''b'' littered)
       = Inl (fs_error EISDIR ''open'' ''temp-r2-sync/photos/'')
   \<and> lookup (fs (snd (syncR2ToLocal (env_with [obj ''photos/a.jpg'', obj ''photos/''])
                         [''b'', ''--force''] ''b'' littered)))
         (resolve (cwd littered) TEMP_DIR @ [''photos'']) = None"
proof -
  note full = scratch_removed [of "env_with [obj ''photos/a.jpg'', obj ''notes.txt'']"
                                  "[''b'', ''--force'']" "''b''" littered]
  note none = scratch_removed [of "env_with []" "[''b'']" "''b''" littered]
  note plan = scratch_removed [of "env_with [keyless]" "[''b'']" "''b''" littered]
  note deny = scratch_removed [of denied_env "[''b'']" "''b''" littered]
  note isdir = scratch_removed [of "env_with [obj ''photos/a.jpg'', obj ''photos/'']"
                                   "[''b'', ''--force'']" "''b''" littered]
  have before: "existsSync littered TEMP_DIR"
    "lookup (fs littered) (resolve (cwd littered) TEMP_DIR @ [''stale'', ''old.bin'']) = Some (File [7])"
    by code_simp+
  have ends: "fst (syncR2ToLocal (env_with [obj ''photos/a.jpg'', obj ''notes.txt'']) [''b'', ''--force''] ''b'' littered) = Inr ()"
    "fst (syncR2ToLocal (env_with []) [''b''] ''b'' littered) = Inr ()"
    "fst (syncR2ToLocal (env_with [keyless]) [''b''] ''b'' littered) = Inr ()"
    "fst (syncR2ToLocal denied_env [''b''] ''b'' littered) = Inl (Error ''Access Denied'')"
    "fst (syncR2ToLocal (env_with [obj ''photos/a.jpg'', obj ''photos/''])
             [''b'', ''--force''] ''b'' littered)
       = Inl (fs_error EISDIR ''open'' ''temp-r2-sync/photos/'')"
    by code_simp+
  from full none plan deny isdir before ends show ?thesis
    by blast
qed

subsection \<open>Local store reader\<close>




subsection \<open>Exit status and the bucket name\<close>

lemma truthy_BUCKET_NAME: "truthy (BUCKET_NAME args) = (args \<noteq> [] \<and> hd args \<noteq> [])"
  by (cases args) (simp_all add: BUCKET_NAME_def)

lemma main_help:
  "''--help'' \<in> set args \<or> ''-h'' \<in> set args \<Longrightarrow> main en args w = (Returned, printUsage w)"
  by (auto simp: main_def)

lemma main_no_bucket:
  "''--help'' \<notin> set args \<Longrightarrow> ''-h'' \<notin> set args \<Longrightarrow> \<not> truthy (BUCKET_NAME args)
     \<Longrightarrow> main en args w = (Returned, printUsage (logError ''Bucket name is required'' w))"
  by (cases args) (auto simp: main_def BUCKET_NAME_def)

lemma main_proceeds:
  "''--help'' \<notin> set args \<Longrightarrow> ''-h'' \<notin> set args \<Longrightarrow> truthy (BUCKET_NAME args)
     \<Longrightarrow> main en args w = main_run en args (hd args) w"
  by (cases args) (auto simp: main_def BUCKET_NAME_def)

lemma main_run_console:
  "prefix (console w @ [Log Info (''Using wrangler directory: '' @ wranglerDir args)])
          (console (snd (main_run en args b w)))"
proof -
  let ?w1 = "logInfo (''Using wrangler directory: '' @ wranglerDir args) w"
  have "grows ?w1 (announceMode args (logInfo (''Using bucket name: '' @ b) ?w1))"
    by (simp add: grows_def announceMode_def log_helpers)
  then have "grows ?w1 (snd (main_run en args b w))"
    by (rule stable_main_run [OF stable_grows, rotated])
       (simp add: reads_or_skips_def stable_reads_grows)
  then show ?thesis
    by (simp add: grows_def log_helpers)
qed

lemma main_run_not_missing:
  "main_run en args b w \<noteq> (Returned, printUsage (logError ''Bucket name is required'' w))"
proof
  assume "main_run en args b w = (Returned, printUsage (logError ''Bucket name is required'' w))"
  with main_run_console [of w args en b] show False
    by (simp add: printUsage_def log_helpers)
qed
text \<open>
  Claim C8. The process ends with status 0 when help is asked for and when the bucket
  name is missing. Otherwise it ends with status 1 when a credential variable is not
  set, and with status 1 when \<open>npx wrangler --version\<close> does not exit with 0; and
  when both checks pass, the sync runs (in the world the version check left) and the
  status is 1 when it throws and 0 when it returns.
\<close>

theorem exit_statuses:
  "(''--help'' \<in> set args \<or> ''-h'' \<in> set args \<longrightarrow> exit_status (fst (main en args w)) = 0)
   \<and> (''--help'' \<notin> set args \<and> ''-h'' \<notin> set args \<and> \<not> truthy (BUCKET_NAME args)
        \<longrightarrow> exit_status (fst (main en args w)) = 0)
   \<and> (''--help'' \<notin> set args \<and> ''-h'' \<notin> set args \<and> truthy (BUCKET_NAME args)
        \<longrightarrow> (if \<not> list_all (\<lambda>name. truthy (process_env en name)) required
             then exit_status (fst (main en args w)) = 1
             else if code (spawn en (trace w) (fs w) ''npx'' [''wrangler'', ''--version'']) \<noteq> Some 0
             then exit_status (fst (main en args w)) = 1
             else \<exists>w1. fs w1 = fs_after (spawn en (trace w) (fs w) ''npx'' [''wrangler'', ''--version''])
                      \<and> trace w1 = trace w @ [Spawn ''npx'' [''wrangler'', ''--version'']]
                      \<and> cwd w1 = cwd w
                      \<and> exit_status (fst (main en args w))
                          = (case fst (syncR2ToLocal en args (hd args) w1) of
                               Inl e \<Rightarrow> 1 | Inr u \<Rightarrow> 0)))"
proof -
  have missing: "\<not> list_all (\<lambda>name. truthy (process_env en name)) required
      \<Longrightarrow> fst (checkEnvironmentVariables en w') = Exit 1" for w'
    by (simp add: checkEnvironmentVariables_def Let_def list_all_iff filter_empty_conv)
  have present: "list_all (\<lambda>name. truthy (process_env en name)) required
      \<Longrightarrow> checkEnvironmentVariables en w' = (Returned, w')" for w'
    by (simp add: checkEnvironmentVariables_def Let_def list_all_iff filter_empty_conv)
  have run:
    "(if \<not> list_all (\<lambda>name. truthy (process_env en name)) required
             then exit_status (fst (main_run en args b w)) = 1
             else if code (spawn en (trace w) (fs w) ''npx'' [''wrangler'', ''--version'']) \<noteq> Some 0
             then exit_status (fst (main_run en args b w)) = 1
             else \<exists>w1. fs w1 = fs_after (spawn en (trace w) (fs w) ''npx'' [''wrangler'', ''--version''])
                      \<and> trace w1 = trace w @ [Spawn ''npx'' [''wrangler'', ''--version'']]
                      \<and> cwd w1 = cwd w
                      \<and> exit_status (fst (main_run en args b w))
                          = (case fst (syncR2ToLocal en args b w1) of
                               Inl e \<Rightarrow> 1 | Inr u \<Rightarrow> 0))" for b
  proof (cases "list_all (\<lambda>name. truthy (process_env en name)) required")
    case False
    then show ?thesis
      using missing [OF False]
      by (simp add: main_run_def case_prod_unfold split: ending.splits)
  next
    case True
    let ?w0 = "logInfo ''Environment variables checked''
                (announceMode args
                  (logInfo (''Using bucket name: '' @ b)
                    (logInfo (''Using wrangler directory: '' @ wranglerDir args) w)))"
    have tr: "trace ?w0 = trace w" and fs: "fs ?w0 = fs w"
      by (simp_all add: announceMode_def log_helpers)
    show ?thesis
    proof (cases "code (spawn en (trace w) (fs w) ''npx'' [''wrangler'', ''--version'']) = Some 0")
      case False
      then show ?thesis
        using True present
        by (simp add: main_run_def checkWranglerAvailable_def execCommand_def Let_def
            announceMode_def log_helpers)
    next
      case ok: True
      let ?w1 = "logInfo ''Wrangler available''
                   (logSuccess ''Wrangler CLI is available''
                      (emit (Spawn ''npx'' [''wrangler'', ''--version''])
                         (?w0\<lparr>fs := fs_after (spawn en (trace w) (fs w) ''npx'' [''wrangler'', ''--version''])\<rparr>)))"
      have m: "main_run en args b w
                 = (case syncR2ToLocal en args b ?w1 of
                      (Inr u, w3) \<Rightarrow> (Returned, w3)
                    | (Inl e, w3) \<Rightarrow> (Exit 1, logError (''Script failed: '' @ message e) w3))"
        using True ok present
        by (simp add: main_run_def checkWranglerAvailable_def execCommand_def Let_def
            announceMode_def log_helpers)
      have "fs ?w1 = fs_after (spawn en (trace w) (fs w) ''npx'' [''wrangler'', ''--version''])
            \<and> trace ?w1 = trace w @ [Spawn ''npx'' [''wrangler'', ''--version'']]
            \<and> cwd ?w1 = cwd w
            \<and> exit_status (fst (main_run en args b w))
                 = (case fst (syncR2ToLocal en args b ?w1) of Inl e \<Rightarrow> 1 | Inr u \<Rightarrow> 0)"
        unfolding m by (simp add: log_helpers announceMode_def case_prod_unfold split: sum.splits)
      then have "\<exists>w1. fs w1 = fs_after (spawn en (trace w) (fs w) ''npx'' [''wrangler'', ''--version''])
            \<and> trace w1 = trace w @ [Spawn ''npx'' [''wrangler'', ''--version'']]
            \<and> cwd w1 = cwd w
            \<and> exit_status (fst (main_run en args b w))
                 = (case fst (syncR2ToLocal en args b w1) of Inl e \<Rightarrow> 1 | Inr u \<Rightarrow> 0)"
        by (rule exI)
      then show ?thesis
        using True ok by simp
    qed
  qed
  show ?thesis
    using run [of "hd args"]
    by (auto simp: main_help main_no_bucket main_proceeds)
qed

theorem exit_statuses_witness:
  "exit_status (fst (main (env_with []) [''b'', ''--help''] bare)) = 0
   \<and> exit_status (fst (main (env_with []) [] bare)) = 0
   \<and> exit_status (fst (main no_credentials_env [''b''] bare)) = 1
   \<and> exit_status (fst (main no_wrangler_env [''b''] bare)) = 1
   \<and> exit_status (fst (main denied_env [''b''] bare)) = 1
   \<and> exit_status (fst (main (env_with [obj ''photos/a.jpg'', obj ''photos/'']) [''b''] bare)) = 1
   \<and> exit_status (fst (main (env_with [obj ''photos/a.jpg'', obj ''notes.txt'']) [''b''] bare)) = 0"
proof -
  have h: "''--help'' \<in> set [''b'', ''--help''] \<or> ''-h'' \<in> set [''b'', ''--help'']"
    by simp
  have n: "''--help'' \<notin> set ([] :: string list) \<and> ''-h'' \<notin> set ([] :: string list)
           \<and> \<not> truthy (BUCKET_NAME [])"
    by (simp add: BUCKET_NAME_def)
  have p: "''--help'' \<notin> set [''b''] \<and> ''-h'' \<notin> set [''b''] \<and> truthy (BUCKET_NAME [''b''])"
    by (simp add: BUCKET_NAME_def)
  have c: "\<not> list_all (\<lambda>name. truthy (process_env no_credentials_env name)) required"
    by (simp add: no_credentials_env_def required_def)
  have w: "list_all (\<lambda>name. truthy (process_env no_wrangler_env name)) required
           \<and> code (spawn no_wrangler_env (trace bare) (fs bare) ''npx'' [''wrangler'', ''--version''])
               \<noteq> Some 0"
    by (simp add: no_wrangler_env_def env_with_def required_def)
  have d: "exit_status (fst (main denied_env [''b''] bare)) = 1"
    by code_simp
  have f: "exit_status (fst (main (env_with [obj ''photos/a.jpg'', obj ''photos/'']) [''b''] bare)) = 1"
    by code_simp
  have s: "exit_status (fst (main (env_with [obj ''photos/a.jpg'', obj ''notes.txt'']) [''b''] bare)) = 0"
    by code_simp
  show ?thesis
    using exit_statuses [of "[''b'', ''--help'']" "env_with []" bare]
      exit_statuses [of "[]" "env_with []" bare]
      exit_statuses [of "[''b'']" no_credentials_env bare]
      exit_statuses [of "[''b'']" no_wrangler_env bare]
      h n p c w d f s
    by simp
qed

text \<open>
  Claim C10 as stated fails in two places. An empty first argument is an argument, yet
  the run ends at the missing-bucket-name exit; and a first argument \<open>--force\<close>
  followed by \<open>--help\<close> prints the usage instead of running with \<open>--force\<close> as
  the bucket name.
\<close>

theorem first_argument_counterexample:
  "missingBucketExit (env_with []) [[]] bare \<and> [[]] \<noteq> ([] :: string list)
   \<and> main (env_with []) [''--force'', ''--help''] bare = (Returned, printUsage bare)"
  by (simp add: missingBucketExit_def main_def BUCKET_NAME_def)

text \<open>
  Claim C10, amended. The bucket name is the first argument, whatever it is. When no
  argument is \<open>--help\<close> or \<open>-h\<close> and the first argument is not the empty string,
  the run proceeds with the first argument as the bucket name, also when it is an option
  flag such as \<open>--force\<close>. The missing-bucket-name exit is reached exactly when no
  argument asks for help and there is no first argument or it is the empty string.
\<close>

theorem first_argument_is_bucket:
  "BUCKET_NAME (a # rest) = Some a
   \<and> (''--help'' \<notin> set (a # rest) \<and> ''-h'' \<notin> set (a # rest) \<and> a \<noteq> []
        \<longrightarrow> main en (a # rest) w = main_run en (a # rest) a w)
   \<and> (missingBucketExit en args w
        \<longleftrightarrow> ''--help'' \<notin> set args \<and> ''-h'' \<notin> set args \<and> (args = [] \<or> hd args = []))"
proof -
  have iff: "missingBucketExit en args w
        \<longleftrightarrow> ''--help'' \<notin> set args \<and> ''-h'' \<notin> set args \<and> (args = [] \<or> hd args = [])"
  proof (cases "''--help'' \<in> set args \<or> ''-h'' \<in> set args")
    case True
    have "printUsage w \<noteq> printUsage (logError ''Bucket name is required'' w)"
    proof
      assume "printUsage w = printUsage (logError ''Bucket name is required'' w)"
      then have "console (printUsage w) = console (printUsage (logError ''Bucket name is required'' w))"
        by simp
      then show False
        by (simp add: printUsage_def log_helpers)
    qed
    with True show ?thesis
      by (auto simp: missingBucketExit_def main_help)
  next
    case False
    show ?thesis
    proof (cases "truthy (BUCKET_NAME args)")
      case True
      with False show ?thesis
        using main_run_not_missing [of en args "hd args" w]
        by (simp add: missingBucketExit_def main_proceeds truthy_BUCKET_NAME)
    next
      case no: False
      with False show ?thesis
        using main_no_bucket [of args en w]
        by (auto simp: missingBucketExit_def truthy_BUCKET_NAME)
    qed
  qed
  show ?thesis
    using iff main_proceeds [of "a # rest" en w]
    by (simp add: BUCKET_NAME_def)
qed

theorem first_argument_is_bucket_witness:
  "main (env_with [obj ''notes.txt'']) [''--force''] bare
     = main_run (env_with [obj ''notes.txt'']) [''--force''] ''--force'' bare
   \<and> S3ListObjectsV2 ''--force'' None
        \<in> set (trace (snd (main (env_with [obj ''notes.txt'']) [''--force''] bare)))
   \<and> missingBucketExit (env_with []) [] bare
   \<and> missingBucketExit (env_with []) [[], ''--force''] bare
   \<and> \<not> missingBucketExit (env_with []) [''--force''] bare"
proof -
  have t: "S3ListObjectsV2 ''--force'' None
        \<in> set (trace (snd (main (env_with [obj ''notes.txt'']) [''--force''] bare)))"
    by code_simp
  show ?thesis
    using first_argument_is_bucket [of "''--force''" "[]" "env_with [obj ''notes.txt'']" bare "[]"]
      first_argument_is_bucket [of "''--force''" "[]" "env_with []" bare "[]"]
      first_argument_is_bucket [of "''--force''" "[]" "env_with []" bare "[[], ''--force'']"]
      first_argument_is_bucket [of "''--force''" "[]" "env_with []" bare "[''--force'']"]
      t
    by simp
qed

subsection \<open>Transfer pipeline\<close>

lemma trace_syncObjects_round_mono:
  "prefix (trace w) (trace (snd (syncObjects_round en b n p x w)))"
proof -
  have "grows w (snd (syncObjects_round en b n p x w))"
    by (rule stable_syncObjects_round [OF stable_grows]) simp
  then show ?thesis by (simp add: grows_def)
qed

lemma trace_syncObjects_from_mono:
  "prefix (trace w) (trace (snd (syncObjects_from en b n p xs w)))"
proof -
  have "grows w (snd (syncObjects_from en b n p xs w))"
    by (rule stable_syncObjects_from [OF stable_grows]) simp
  then show ?thesis by (simp add: grows_def)
qed

text \<open>What one round does when the object has a key: the three steps in order.\<close>

lemma syncObjects_round_keyed:
  assumes "Key x = Some key" and "key \<noteq> []"
  shows "syncObjects_round en b n p x w =
     (case downloadObject en b key (path_join [TEMP_DIR, key])
             (logStep (''['' @ show_nat (p + 1) @ ''/'' @ show_nat n @ ''] Processing: '' @ key) w) of
        (Inl e, w2) \<Rightarrow> (Inl e, w2)
      | (Inr u, w2) \<Rightarrow>
          (case uploadObjectToLocal en b key (path_join [TEMP_DIR, key]) w2 of
             (Inl e, w3) \<Rightarrow> (Inl e, w3)
           | (Inr v, w3) \<Rightarrow>
               if existsSync w3 (path_join [TEMP_DIR, key])
               then (case unlinkSync (path_join [TEMP_DIR, key]) w3 of
                       (Inl e, w4) \<Rightarrow> (Inl e, w4)
                     | (Inr x, w4) \<Rightarrow> (Inr (p + 1), w4))
               else (Inr (p + 1), w3)))"
  using assms by (simp add: syncObjects_round_def Let_def)

lemma syncObjects_round_keyless:
  "\<not> hasKey x \<Longrightarrow> syncObjects_round en b n p x w = (Inr p, w)"
  by (auto simp: syncObjects_round_def hasKey_def split: option.splits)

lemma syncObjects_round_count:
  "syncObjects_round en b n p x w = (Inr q, w') \<Longrightarrow> q = p + (if hasKey x then 1 else 0)"
  by (auto simp: syncObjects_round_def hasKey_def Let_def
      split: option.splits if_splits prod.splits sum.splits)

lemma uploadObjectToLocal_trace:
  "trace (snd (uploadObjectToLocal en b key f w))
     = trace w @ [Spawn ''wrangler'' [''r2'', ''object'', ''put'', b @ ''/'' @ key, ''--file'', f]]"
  by (simp add: uploadObjectToLocal_def execCommand_def Let_def log_helpers)

lemma syncObjects_from_append:
  "syncObjects_from en b n p (xs @ ys) w =
     (case syncObjects_from en b n p xs w of
        (Inl e, w1) \<Rightarrow> (Inl e, w1)
      | (Inr u, w1) \<Rightarrow> syncObjects_from en b n (p + length (filter hasKey xs)) ys w1)"
proof (induction xs arbitrary: p w)
  case Nil
  show ?case by simp
next
  case (Cons x xs)
  show ?case
  proof (cases "syncObjects_round en b n p x w")
    case (Pair r w1)
    show ?thesis
    proof (cases r)
      case (Inl e)
      with Pair show ?thesis by simp
    next
      case (Inr q)
      with Pair have "q = p + (if hasKey x then 1 else 0)"
        by (simp add: syncObjects_round_count)
      with Pair Inr show ?thesis
        by (auto simp: Cons.IH split: prod.splits sum.splits)
    qed
  qed
qed

lemma added_step:
  "prefix (trace w) (trace w2) \<Longrightarrow> prefix (trace w2 @ [s]) (trace w') \<Longrightarrow> s \<in> set (added w w')"
  by (auto simp: added_def prefix_def)

lemma added_later:
  "s \<in> set (added w w1) \<Longrightarrow> prefix (trace w) (trace w1) \<Longrightarrow> prefix (trace w1) (trace w')
     \<Longrightarrow> s \<in> set (added w w')"
  by (auto simp: added_def prefix_def)

lemma added_earlier:
  "s \<in> set (added w1 w') \<Longrightarrow> prefix (trace w) (trace w1) \<Longrightarrow> prefix (trace w1) (trace w')
     \<Longrightarrow> s \<in> set (added w w')"
  by (auto simp: added_def prefix_def)

lemma trace_downloadObject_mono:
  "prefix (trace w) (trace (snd (downloadObject en b k f w)))"
proof -
  have "grows w (snd (downloadObject en b k f w))"
    by (rule stable_downloadObject [OF stable_grows]) simp
  then show ?thesis by (simp add: grows_def)
qed

lemma syncObjects_round_added:
  assumes "syncObjects_round en b n p x w = (Inr q, w')" and "hasKey x"
  shows "Spawn ''wrangler'' (put_args b (the (Key x))) \<in> set (added w w')"
proof -
  from \<open>hasKey x\<close> obtain key where k: "Key x = Some key" "key \<noteq> []"
    by (cases "Key x") (auto simp: hasKey_def)
  let ?f = "path_join [TEMP_DIR, key]"
  let ?w0 = "logStep (''['' @ show_nat (p + 1) @ ''/'' @ show_nat n @ ''] Processing: '' @ key) w"
  obtain r2 w2 where d: "downloadObject en b key ?f ?w0 = (r2, w2)"
    by (metis surj_pair)
  obtain r3 w3 where u: "uploadObjectToLocal en b key ?f w2 = (r3, w3)"
    by (metis surj_pair)
  have p2: "prefix (trace w) (trace w2)"
    using trace_downloadObject_mono [of ?w0 en b key ?f] d by (simp add: log_helpers)
  have t3: "trace w3 = trace w2 @ [Spawn ''wrangler'' (put_args b key)]"
    using uploadObjectToLocal_trace [of en b key ?f w2] u by (simp add: put_args_def)
  have "prefix (trace w3) (trace w')"
  proof (cases "existsSync w3 ?f")
    case True
    obtain r4 w4 where ul: "unlinkSync ?f w3 = (r4, w4)"
      by (metis surj_pair)
    have "trace w4 = trace w3 @ [FsUnlink ?f]"
      using ul by (auto simp: unlinkSync_def split: sum.splits)
    moreover have "w' = w4"
      using assms(1) k d u ul True
      by (auto simp: syncObjects_round_keyed split: sum.splits)
    ultimately show ?thesis by simp
  next
    case False
    then have "w' = w3"
      using assms(1) k d u
      by (auto simp: syncObjects_round_keyed split: sum.splits)
    then show ?thesis by simp
  qed
  with p2 t3 show ?thesis
    using k by (simp add: added_step)
qed

lemma syncObjects_from_added:
  assumes "syncObjects_from en b n p plan w = (Inr (), w')" and "x \<in> set plan" and "hasKey x"
  shows "Spawn ''wrangler'' (put_args b (the (Key x))) \<in> set (added w w')"
  using assms
proof (induction plan arbitrary: p w)
  case Nil
  then show ?case by simp
next
  case (Cons y plan)
  obtain r w1 where round: "syncObjects_round en b n p y w = (r, w1)"
    by (metis surj_pair)
  with Cons.prems(1) obtain q where q: "r = Inr q"
    and rest: "syncObjects_from en b n q plan w1 = (Inr (), w')"
    by (cases r) auto
  have m1: "prefix (trace w) (trace w1)"
    using trace_syncObjects_round_mono [of w en b n p y] round by simp
  have m2: "prefix (trace w1) (trace w')"
    using trace_syncObjects_from_mono [of w1 en b n q plan] rest by simp
  show ?case
  proof (cases "x = y")
    case True
    with round q Cons.prems(3)
    have "Spawn ''wrangler'' (put_args b (the (Key x))) \<in> set (added w w1)"
      by (auto intro: syncObjects_round_added)
    then show ?thesis
      using m1 m2 by (rule added_later)
  next
    case False
    with Cons.prems(2) have "x \<in> set plan" by simp
    then have "Spawn ''wrangler'' (put_args b (the (Key x))) \<in> set (added w1 w')"
      using Cons.IH [OF rest _ Cons.prems(3)] by simp
    then show ?thesis
      using m1 m2 by (rule added_earlier)
  qed
qed

lemma pair_fst: "fst p = a \<Longrightarrow> p = (a, snd p)"
  by (cases p) simp

text \<open>
  Claim C7. Take any plan and any position in it: the objects before, the object
  \<open>x\<close> there, the objects after. When the rounds before have gone through, the
  download of \<open>x\<close> has succeeded and the upload command for \<open>x\<close> does not exit with
  0, then \<open>syncObjects\<close> throws the error of that command, the failed upload is the
  last call it makes (nothing is downloaded, uploaded or deleted for the objects after
  \<open>x\<close>), the file system is the one the failed command left, and every upload made
  for the objects before \<open>x\<close> stays made: the calls of the earlier rounds are still
  in the trace and nothing undoes them.
\<close>

theorem upload_failure_stops_batch:
  assumes before: "syncObjects_from en b (length (pre @ x # post)) 0 pre w = (Inr (), w1)"
    and key: "Key x = Some key" "key \<noteq> []"
    and down: "downloadObject en b key (path_join [TEMP_DIR, key])
                 (logStep (''['' @ show_nat (length (filter hasKey pre) + 1) @ ''/''
                            @ show_nat (length (pre @ x # post)) @ ''] Processing: '' @ key) w1)
               = (Inr (), w2)"
    and fails: "code (spawn en (trace w2) (fs w2) ''wrangler'' (put_args b key)) \<noteq> Some 0"
  shows "\<exists>w3. syncObjects en b (pre @ x # post) w
               = (Inl (Error (''Command failed with code ''
                       @ show_code (code (spawn en (trace w2) (fs w2) ''wrangler'' (put_args b key)))
                       @ '': '' @ stderr (spawn en (trace w2) (fs w2) ''wrangler'' (put_args b key)))),
                  w3)
             \<and> trace w3 = trace w2 @ [Spawn ''wrangler'' (put_args b key)]
             \<and> fs w3 = fs_after (spawn en (trace w2) (fs w2) ''wrangler'' (put_args b key))
             \<and> prefix (trace w1) (trace w3)
             \<and> (\<forall>y. y \<in> set pre \<and> hasKey y
                    \<longrightarrow> Spawn ''wrangler'' (put_args b (the (Key y))) \<in> set (added w w1))"
proof -
  let ?n = "length (pre @ x # post)"
  let ?f = "path_join [TEMP_DIR, key]"
  let ?child = "spawn en (trace w2) (fs w2) ''wrangler'' (put_args b key)"
  let ?e = "Error (''Command failed with code '' @ show_code (code ?child) @ '': '' @ stderr ?child)"
  let ?w3 = "logError (''Failed to upload '' @ key @ '' to local: '' @ message ?e)
               (emit (Spawn ''wrangler'' (put_args b key)) (w2\<lparr>fs := fs_after ?child\<rparr>))"
  have up: "uploadObjectToLocal en b key ?f w2 = (Inl ?e, ?w3)"
    using fails by (simp add: uploadObjectToLocal_def execCommand_def Let_def put_args_def)
  have round: "syncObjects_round en b ?n (0 + length (filter hasKey pre)) x w1 = (Inl ?e, ?w3)"
    using key down up by (simp add: syncObjects_round_keyed)
  have run: "syncObjects en b (pre @ x # post) w = (Inl ?e, ?w3)"
    using before round by (simp add: syncObjects_def syncObjects_from_append)
  have p2: "prefix (trace w1) (trace w2)"
    using trace_downloadObject_mono
      [of "logStep (''['' @ show_nat (length (filter hasKey pre) + 1) @ ''/''
                     @ show_nat (length (pre @ x # post)) @ ''] Processing: '' @ key) w1"
          en b key ?f]
    unfolding down by (simp add: log_helpers)
  have kept: "Spawn ''wrangler'' (put_args b (the (Key y))) \<in> set (added w w1)"
    if "y \<in> set pre" "hasKey y" for y
    using before that by (rule syncObjects_from_added)
  have final: "syncObjects en b (pre @ x # post) w = (Inl ?e, ?w3)
      \<and> trace ?w3 = trace w2 @ [Spawn ''wrangler'' (put_args b key)]
      \<and> fs ?w3 = fs_after ?child
      \<and> prefix (trace w1) (trace ?w3)
      \<and> (\<forall>y. y \<in> set pre \<and> hasKey y
             \<longrightarrow> Spawn ''wrangler'' (put_args b (the (Key y))) \<in> set (added w w1))"
    using run p2 kept by (simp add: log_helpers)
  show ?thesis
    by (rule exI [where x = ?w3]) (rule final)
qed

theorem upload_failure_stops_batch_witness:
  "fst (syncObjects flaky_env ''b'' [obj ''photos/a.jpg'', obj ''notes.txt'', obj ''video.mp4''] bare)
     = Inl (Error ''Command failed with code 1: fetch failed'')
   \<and> added bare (snd (syncObjects flaky_env ''b''
                        [obj ''photos/a.jpg'', obj ''notes.txt'', obj ''video.mp4''] bare))
     = [S3GetObject ''b'' ''photos/a.jpg'', FsMkdir ''temp-r2-sync/photos'',
        FsWrite ''temp-r2-sync/photos/a.jpg'',
        Spawn ''wrangler'' (put_args ''b'' ''photos/a.jpg''),
        FsUnlink ''temp-r2-sync/photos/a.jpg'',
        S3GetObject ''b'' ''notes.txt'', FsWrite ''temp-r2-sync/notes.txt'',
        Spawn ''wrangler'' (put_args ''b'' ''notes.txt'')]
   \<and> fst (main flaky_env [''b'', ''--force''] bare) = Exit 1"
proof -
  let ?plan = "[obj ''photos/a.jpg'', obj ''notes.txt'', obj ''video.mp4'']"
  let ?pre = "[obj ''photos/a.jpg'']"
  let ?x = "obj ''notes.txt''"
  let ?post = "[obj ''video.mp4'']"
  let ?w1 = "snd (syncObjects_from flaky_env ''b'' 3 0 ?pre bare)"
  let ?w2 = "snd (downloadObject flaky_env ''b'' ''notes.txt'' (path_join [TEMP_DIR, ''notes.txt''])
                    (logStep ''[2/3] Processing: notes.txt'' ?w1))"
  let ?child = "spawn flaky_env (trace ?w2) (fs ?w2) ''wrangler'' (put_args ''b'' ''notes.txt'')"
  have len: "length (?pre @ ?x # ?post) = 3"
    by simp
  have cnt: "length (filter hasKey ?pre) + 1 = 2"
    by (simp add: hasKey_def obj_def)
  have msg: "''['' @ show_nat 2 @ ''/'' @ show_nat 3 @ ''] Processing: '' @ ''notes.txt''
      = ''[2/3] Processing: notes.txt''"
    by code_simp
  have b0: "syncObjects_from flaky_env ''b'' 3 0 ?pre bare = (Inr (), ?w1)"
    by (rule pair_fst) code_simp
  have before: "syncObjects_from flaky_env ''b'' (length (?pre @ ?x # ?post)) 0 ?pre bare = (Inr (), ?w1)"
    unfolding len by (rule b0)
  have key: "Key ?x = Some ''notes.txt''" "''notes.txt'' \<noteq> []"
    by (simp_all add: obj_def)
  have d0: "downloadObject flaky_env ''b'' ''notes.txt'' (path_join [TEMP_DIR, ''notes.txt''])
                    (logStep ''[2/3] Processing: notes.txt'' ?w1) = (Inr (), ?w2)"
    by (rule pair_fst) code_simp
  have down: "downloadObject flaky_env ''b'' ''notes.txt'' (path_join [TEMP_DIR, ''notes.txt''])
       (logStep (''['' @ show_nat (length (filter hasKey ?pre) + 1) @ ''/''
                  @ show_nat (length (?pre @ ?x # ?post)) @ ''] Processing: '' @ ''notes.txt'') ?w1)
     = (Inr (), ?w2)"
    unfolding len cnt msg by (rule d0)
  have c: "spawn flaky_env tr files ''wrangler'' (put_args ''b'' ''notes.txt'')
      = \<lparr>code = Some 1, stdout = [], stderr = ''fetch failed'', fs_after = files\<rparr>" for tr files
    by (simp add: flaky_env_def)
  have fails: "code ?child \<noteq> Some 0"
    by (simp only: c) simp
  have failure: "''Command failed with code '' @ show_code (code ?child) @ '': '' @ stderr ?child
      = ''Command failed with code 1: fetch failed''"
    by (simp only: c spawned.simps) code_simp
  have tr: "added bare (snd (syncObjects flaky_env ''b'' ?plan bare))
     = [S3GetObject ''b'' ''photos/a.jpg'', FsMkdir ''temp-r2-sync/photos'',
        FsWrite ''temp-r2-sync/photos/a.jpg'',
        Spawn ''wrangler'' (put_args ''b'' ''photos/a.jpg''),
        FsUnlink ''temp-r2-sync/photos/a.jpg'',
        S3GetObject ''b'' ''notes.txt'', FsWrite ''temp-r2-sync/notes.txt'',
        Spawn ''wrangler'' (put_args ''b'' ''notes.txt'')]"
    by code_simp
  have m: "fst (main flaky_env [''b'', ''--force''] bare) = Exit 1"
    by code_simp
  from upload_failure_stops_batch [OF before key down fails]
  obtain w3 where "syncObjects flaky_env ''b'' (?pre @ ?x # ?post) bare
       = (Inl (Error (''Command failed with code '' @ show_code (code ?child) @ '': '' @ stderr ?child)), w3)"
    by blast
  then have "fst (syncObjects flaky_env ''b'' (?pre @ ?x # ?post) bare)
      = Inl (Error ''Command failed with code 1: fetch failed'')"
    by (simp only: failure fst_conv)
  then have "fst (syncObjects flaky_env ''b'' ?plan bare)
      = Inl (Error ''Command failed with code 1: fetch failed'')"
    by (simp only: append.simps)
  with tr m show ?thesis
    by (simp only: simp_thms)
qed

subsection \<open>Force and clean mode\<close>

text \<open>
  Claim C4 as stated fails: in force mode and in clean mode the guard on the key still
  applies, so an object with no key or with the empty key is left out of the plan, and
  the plan differs from the remote listing.
\<close>

theorem force_or_clean_counterexample:
  "objectsToSync True False [keyless, obj ''notes.txt''] [] = [obj ''notes.txt'']
   \<and> objectsToSync True False [keyless, obj ''notes.txt''] [] \<noteq> [keyless, obj ''notes.txt'']
   \<and> objectsToSync False True [obj ''''] [] \<noteq> [obj '''']"
  by (simp add: objectsToSync_def needsSync_def keyless_def obj_def)

lemma sqlite_reads_kept:
  "forceSync args \<or> cleanSync args \<Longrightarrow>
     filter is_SqliteAll (trace (snd (syncR2ToLocal en args bucket w))) = filter is_SqliteAll (trace w)"
proof -
  assume "forceSync args \<or> cleanSync args"
  then have r: "reads_or_skips (\<lambda>v. filter is_SqliteAll (trace v) = filter is_SqliteAll (trace w)) args"
    by (auto simp: reads_or_skips_def)
  have s: "stable (\<lambda>v. filter is_SqliteAll (trace v) = filter is_SqliteAll (trace w))"
    by (simp add: stable_def printUsage_def)
  show ?thesis
    by (rule stable_syncR2ToLocal [OF s r]) simp
qed

text \<open>
  Claim C4, amended. If force mode or clean mode is on, then for every remote listing and
  every local key set the plan is the remote listing without the objects whose key is
  undefined or empty, in the listing's order; it is the whole listing when every object
  has a key. The local listing step is not performed: it returns no keys and leaves the
  world as it is, and the run makes no query on the local database.
\<close>

theorem force_or_clean_selects_keyed:
  "(force \<or> clean \<longrightarrow>
      objectsToSync force clean remoteObjects localObjects = filter hasKey remoteObjects
      \<and> (list_all hasKey remoteObjects \<longrightarrow>
            objectsToSync force clean remoteObjects localObjects = remoteObjects))
   \<and> (forceSync args \<or> cleanSync args \<longrightarrow>
        localListing en args bucket w = (Inr [], w)
        \<and> filter is_SqliteAll (trace (snd (syncR2ToLocal en args bucket w)))
            = filter is_SqliteAll (trace w))"
proof -
  have "list_all hasKey remoteObjects \<Longrightarrow> filter hasKey remoteObjects = remoteObjects"
    by (simp add: list_all_iff)
  then show ?thesis
    by (auto simp: objectsToSync_def needsSync_all localListing_def sqlite_reads_kept)
qed

theorem force_or_clean_selects_keyed_witness:
  "objectsToSync True False [obj ''photos/a.jpg'', keyless, obj ''notes.txt''] [''notes.txt'']
     = [obj ''photos/a.jpg'', obj ''notes.txt'']
   \<and> objectsToSync False True [obj ''photos/a.jpg'', obj ''notes.txt''] [''notes.txt'']
     = [obj ''photos/a.jpg'', obj ''notes.txt'']
   \<and> localListing (env_with []) [''b'', ''--force''] ''b'' with_database = (Inr [], with_database)
   \<and> filter is_SqliteAll
        (trace (snd (syncR2ToLocal (env_with [obj ''notes.txt'']) [''b'', ''--clean''] ''b'' with_database)))
     = []
   \<and> filter is_SqliteAll
        (trace (snd (syncR2ToLocal (env_with [obj ''notes.txt'']) [''b''] ''b'' with_database)))
     \<noteq> []"
proof -
  have k: "list_all hasKey [obj ''photos/a.jpg'', obj ''notes.txt'']"
    "filter hasKey [obj ''photos/a.jpg'', keyless, obj ''notes.txt''] = [obj ''photos/a.jpg'', obj ''notes.txt'']"
    by (simp_all add: hasKey_def obj_def keyless_def)
  have f: "forceSync [''b'', ''--force'']" "cleanSync [''b'', ''--clean'']"
    by (simp_all add: forceSync_def cleanSync_def)
  have t: "trace with_database = []"
    by (simp add: with_database_def bare_def)
  have n: "filter is_SqliteAll
        (trace (snd (syncR2ToLocal (env_with [obj ''notes.txt'']) [''b''] ''b'' with_database))) \<noteq> []"
    by code_simp
  show ?thesis
    using force_or_clean_selects_keyed [of True False "[obj ''photos/a.jpg'', keyless, obj ''notes.txt'']"
        "[''notes.txt'']" "[''b'', ''--force'']" "env_with []" "''b''" with_database]
      force_or_clean_selects_keyed [of False True "[obj ''photos/a.jpg'', obj ''notes.txt'']"
        "[''notes.txt'']" "[''b'', ''--clean'']" "env_with [obj ''notes.txt'']" "''b''" with_database]
      k f t n
    by simp
qed

subsection \<open>Idempotence\<close>

lemma objectsToSync_keyed:
  "x \<in> set (objectsToSync force clean remoteObjects localObjects) \<Longrightarrow> hasKey x"
  by (auto simp: objectsToSync_def needsSync_def hasKey_def split: option.splits if_splits)

text \<open>
  Claim C9. Let a first normal-mode run transfer its plan, computed from the local keys
  \<open>local1\<close>, without an error. Suppose each upload registers its key: every key for
  which the run spawned the upload command is among the local keys \<open>local2\<close> read
  afterwards, and the keys that were there stay. Then the plan of a second normal-mode run
  over the same remote listing is empty, and the second run reports that all objects are
  in sync and transfers nothing.
\<close>

theorem second_run_selects_nothing:
  assumes first: "syncObjects en bucket (objectsToSync False False remoteObjects local1) w = (Inr (), w')"
    and registered: "\<forall>key. Spawn ''wrangler'' (put_args bucket key) \<in> set (added w w') \<longrightarrow> key \<in> set local2"
    and kept: "set local1 \<subseteq> set local2"
  shows "objectsToSync False False remoteObjects local2 = []
     \<and> (\<forall>en2 v v1. \<not> cleanSync args \<and> \<not> forceSync args
           \<and> localListing en2 args bucket
                 (logSuccess (''Found '' @ show_nat (length remoteObjects) @ '' objects in remote bucket'') v)
               = (Inr local2, v1)
           \<longrightarrow> syncR2ToLocal_transfer en2 args bucket remoteObjects v
               = (Inr (), logSuccess ''All objects are already in sync!'' v1))"
proof -
  let ?plan = "objectsToSync False False remoteObjects local1"
  have none: "\<not> missingLocally local2 x" if x: "x \<in> set remoteObjects" for x
  proof
    assume m: "missingLocally local2 x"
    then obtain key where k: "Key x = Some key" "key \<noteq> []" "key \<notin> set local2"
      by (auto simp: missingLocally_def split: option.splits)
    with kept have "key \<notin> set local1" by auto
    with k x have "x \<in> set ?plan"
      by (simp add: objectsToSync_def needsSync_normal missingLocally_def)
    moreover have "hasKey x"
      using k by (simp add: hasKey_def)
    ultimately have "Spawn ''wrangler'' (put_args bucket (the (Key x))) \<in> set (added w w')"
      using first by (auto simp: syncObjects_def intro: syncObjects_from_added)
    with registered k show False by simp
  qed
  then have empty: "objectsToSync False False remoteObjects local2 = []"
    by (simp add: objectsToSync_def needsSync_normal filter_empty_conv)
  show ?thesis
    using empty by (simp add: syncR2ToLocal_transfer_def Let_def)
qed

theorem second_run_selects_nothing_witness:
  "syncObjects (env_with [obj ''photos/a.jpg'', obj ''notes.txt'']) ''b''
       (objectsToSync False False [obj ''photos/a.jpg'', obj ''notes.txt''] [''notes.txt'']) bare
     = (Inr (), snd (syncObjects (env_with [obj ''photos/a.jpg'', obj ''notes.txt'']) ''b''
                       [obj ''photos/a.jpg''] bare))
   \<and> objectsToSync False False [obj ''photos/a.jpg'', obj ''notes.txt'']
         [''notes.txt'', ''photos/a.jpg''] = []"
proof -
  let ?en = "env_with [obj ''photos/a.jpg'', obj ''notes.txt'']"
  let ?remote = "[obj ''photos/a.jpg'', obj ''notes.txt'']"
  let ?w' = "snd (syncObjects ?en ''b'' [obj ''photos/a.jpg''] bare)"
  have plan: "objectsToSync False False ?remote [''notes.txt''] = [obj ''photos/a.jpg'']"
    by (simp add: objectsToSync_def needsSync_def obj_def)
  have "fst (syncObjects ?en ''b'' [obj ''photos/a.jpg''] bare) = Inr ()"
    by code_simp
  then have first: "syncObjects ?en ''b'' (objectsToSync False False ?remote [''notes.txt'']) bare
      = (Inr (), ?w')"
    by (simp add: plan prod_eq_iff)
  have new: "added bare ?w' =
      [S3GetObject ''b'' ''photos/a.jpg'', FsMkdir ''temp-r2-sync/photos'',
       FsWrite ''temp-r2-sync/photos/a.jpg'',
       Spawn ''wrangler'' [''r2'', ''object'', ''put'', ''b/photos/a.jpg'', ''--file'',
                           ''temp-r2-sync/photos/a.jpg''],
       FsUnlink ''temp-r2-sync/photos/a.jpg'']"
    by code_simp
  have registered: "\<forall>key. Spawn ''wrangler'' (put_args ''b'' key) \<in> set (added bare ?w')
      \<longrightarrow> key \<in> set [''notes.txt'', ''photos/a.jpg'']"
    unfolding new by (simp add: put_args_def)
  have kept: "set [''notes.txt''] \<subseteq> set [''notes.txt'', ''photos/a.jpg'']"
    by simp
  show ?thesis
    using second_run_selects_nothing [OF first registered kept] first
    by simp
qed

subsection \<open>Clean mode and the wrangler directory\<close>

text \<open>The run of the script in the shared project, evaluated: how it ends and the world it leaves.\<close>

lemma monorepo_clean_run:
  "main (env_with [obj ''notes.txt'']) monorepo_args monorepo =
     (Returned,
      \<lparr>fs = path_to [''srv'', ''shop'']
              (Dir [(''web'', path_to [''.wrangler'', ''state'', ''v3''] (Dir [])),
                    (''.wrangler'',
                     path_to [''state'', ''v3'', ''r2'', ''miniflare-R2BucketObject'']
                       (Dir [(''kept.sqlite'', File [1])]))]),
       cwd = [''srv'', ''shop'', ''web''],
       trace =
         [Spawn ''npx'' [''wrangler'', ''--version''],
          FsMkdir ''./temp-r2-sync'',
          FsRm ''.wrangler/state/v3/r2'',
          S3ListObjectsV2 ''b'' None,
          S3GetObject ''b'' ''notes.txt'',
          FsWrite ''temp-r2-sync/notes.txt'',
          Spawn ''wrangler'' [''r2'', ''object'', ''put'', ''b/notes.txt'', ''--file'',
                              ''temp-r2-sync/notes.txt''],
          FsUnlink ''temp-r2-sync/notes.txt'',
          FsRm ''./temp-r2-sync''],
       console =
         [Log Info ''Using wrangler directory: ../.wrangler'',
          Log Info ''Using bucket name: b'',
          Log Info ''Clean mode enabled - will delete all local objects first'',
          Log Info ''Environment variables checked'',
          Log Success ''Wrangler CLI is available'',
          Log Info ''Wrangler available'',
          Log Plain ''Starting R2 sync to local Wrangler...'',
          Log Step ''Initializing remote R2 client...'',
          Log Success ''Created directory: ./temp-r2-sync'',
          Log Step ''Clean mode enabled - removing all local objects...'',
          Log Step ''Cleaning local R2 bucket...'',
          Log Success ''Cleaning local R2 bucket...'',
          Log Success ''Cleaned up directory: .wrangler/state/v3/r2'',
          Log Success ''Cleaned local bucket'',
          Log Step ''Listing objects in remote bucket: b...'',
          Log Success ''Found 1 objects in remote bucket'',
          Log Info ''Need to sync 1 objects'',
          Log Step ''[1/1] Processing: notes.txt'',
          Log Success ''Downloaded: notes.txt'',
          Log Success ''Uploaded to local: notes.txt'',
          Log Success ''Successfully synced 1 objects to local Wrangler!'',
          Log Step ''Cleaning up temporary files...'',
          Log Success ''Cleaned up directory: ./temp-r2-sync'']\<rparr>)"
  by code_simp

text \<open>
  Claim C2 does not hold of the code. \<open>cleanLocalBucket\<close> removes the directory named
  by the literal \<open>.wrangler/state/v3/r2\<close>, relative to the working directory, and
  never reads \<open>wranglerDir\<close>. Run in \<open>/srv/shop/web\<close> with \<open>--clean\<close> and
  \<open>--wrangler-dir=../.wrangler\<close>, the script announces the configured directory, and
  the local store reader would look under it; yet after the run the state tree under the
  configured directory is there as before, with its database. What the run removed,
  before the remote listing, is the state tree \<open>/srv/shop/web/.wrangler/state/v3/r2\<close>,
  which the command line does not name.
\<close>

theorem clean_mode_ignores_wrangler_dir:
  "cleanSync monorepo_args
   \<and> wranglerDir monorepo_args = ''../.wrangler''
   \<and> MINIFLARE_DIR monorepo_args = ''../.wrangler/state/v3/r2/miniflare-R2BucketObject''
   \<and> fst (main (env_with [obj ''notes.txt'']) monorepo_args monorepo) = Returned
   \<and> lookup (fs monorepo)
         (resolve (cwd monorepo) (path_join [wranglerDir monorepo_args, ''state'', ''v3'', ''r2'']))
       = Some (Dir [(''miniflare-R2BucketObject'', Dir [(''kept.sqlite'', File [1])])])
   \<and> lookup (fs (snd (main (env_with [obj ''notes.txt'']) monorepo_args monorepo)))
         (resolve (cwd monorepo) (path_join [wranglerDir monorepo_args, ''state'', ''v3'', ''r2'']))
       = Some (Dir [(''miniflare-R2BucketObject'', Dir [(''kept.sqlite'', File [1])])])
   \<and> existsSync (snd (main (env_with [obj ''notes.txt'']) monorepo_args monorepo))
         (MINIFLARE_DIR monorepo_args)
   \<and> existsSync monorepo ''.wrangler/state/v3/r2''
   \<and> \<not> existsSync (snd (main (env_with [obj ''notes.txt'']) monorepo_args monorepo))
           ''.wrangler/state/v3/r2''
   \<and> filter (\<lambda>e. e \<in> {FsRm ''.wrangler/state/v3/r2'',
                          FsRm (path_join [wranglerDir monorepo_args, ''state'', ''v3'', ''r2'']),
                          S3ListObjectsV2 ''b'' None})
        (trace (snd (main (env_with [obj ''notes.txt'']) monorepo_args monorepo)))
       = [FsRm ''.wrangler/state/v3/r2'', S3ListObjectsV2 ''b'' None]"
  unfolding monorepo_clean_run by code_simp

end
